theory Spec2Isabelle
  imports Complex_Main
begin

section \<open>Values, errors and the instrument world\<close>

text \<open>
  The development embeds three modules of the mesoscoPy toolkit:
  \<^verbatim>\<open>experiment/double_gate_map.py\<close> (\<open>_go_to\<close>, \<open>gate_map\<close>),
  \<^verbatim>\<open>instrument/lockin.py\<close> (\<open>initialise_lockin\<close>) and
  \<^verbatim>\<open>analysis/plot.py\<close> (\<open>plot_dataset_1D\<close>, \<open>plot_dataset_2D\<close>).

  Python floats are idealised as real numbers: rounding, infinities and NaN are outside
  the model. Exceptions are values of the type \<open>error\<close>; a function that can raise
  returns \<open>error + 'a\<close> with \<open>Inl\<close> for the exception.
\<close>

datatype error =
    InvalidRangeError
  | UnboundLocalError
  | IndexError
  | ValueError
  | TypeError
  | InstrumentIOError

text \<open>The two channels of the Keithley source-measure unit, \<open>smua\<close> and \<open>smub\<close>.\<close>

datatype chan = Smua | Smub

text \<open>
  The parameters handed to \<open>sweep2d\<close> as things to read at each grid point:
  \<open>station.<name>.demods[0].sample\<close>, \<open>station.triton.T8\<close>,
  \<open>station.triton.Bz\<close> and \<open>station.keithley.<channel>.curr\<close>.
\<close>

datatype observable =
    Demod0_sample string
  | Triton_T8
  | Triton_Bz
  | Keithley_curr chan

text \<open>
  One call of \<open>sweep2d\<close>, with the positional and keyword arguments in the order
  \<open>gate_map\<close> writes them. The two setters are \<open><channel>.volt\<close>; an experiment is
  known by a number.
\<close>

record sweep2d_call =
  param_set1 :: chan
  xarray_arg :: "real list"
  inner_delay_arg :: real
  param_set2 :: chan
  yarray_arg :: "real list"
  outer_delay_arg :: real
  param_meas :: "observable list"
  exp_arg :: "nat option"
  measurement_name :: string
  use_threads :: bool
  measure_retrace_arg :: "bool option"

text \<open>
  A formatted string that interpolates a float or a list is kept as its fragments, since
  the digits Python prints for a float are outside the model.
\<close>

datatype fragment = Lit string | Num real | Names "string list"

text \<open>
  A value written to a lock-in node: a number, or the square root of a number, which is
  kept as it stands (\<open>2**(1/2)\<close> is no rational number).
\<close>

datatype setting = Number real | Sqrt real

text \<open>
  Everything the code does to the outside world is an event; the state threaded through
  the functions is the chronological list of events so far. \<open>Volt_get\<close> and
  \<open>Curr_get\<close> carry the value the instrument answered, \<open>Lockin_set\<close> is a write of
  one lock-in node, \<open>Print\<close> is a line on standard output.
\<close>

datatype event =
    Sleep real
  | Volt_set chan real
  | Volt_get chan real
  | Curr_get chan real
  | Initialise_keithley
  | Sweep2d sweep2d_call
  | Lockin_set string string setting
  | Print "fragment list"

type_synonym history = "event list"

text \<open>
  The instruments are a deterministic environment: what a read answers is a function of
  everything that happened before it. \<open>sweep2d_resp\<close> is the dataset handle (a run
  identifier) that the sweep collaborator gives back.
\<close>

record hardware =
  volt_resp :: "history \<Rightarrow> chan \<Rightarrow> real"
  curr_resp :: "history \<Rightarrow> chan \<Rightarrow> real"
  sweep2d_resp :: "history \<Rightarrow> sweep2d_call \<Rightarrow> error + nat"

definition sleep :: "real \<Rightarrow> history \<Rightarrow> history" where
  "sleep d h = h @ [Sleep d]"

definition volt_set :: "chan \<Rightarrow> real \<Rightarrow> history \<Rightarrow> history" where
  "volt_set c v h = h @ [Volt_set c v]"

definition volt_get :: "hardware \<Rightarrow> chan \<Rightarrow> history \<Rightarrow> real \<times> history" where
  "volt_get hw c h = (let r = volt_resp hw h c in (r, h @ [Volt_get c r]))"

definition curr_get :: "hardware \<Rightarrow> chan \<Rightarrow> history \<Rightarrow> real \<times> history" where
  "curr_get hw c h = (let r = curr_resp hw h c in (r, h @ [Curr_get c r]))"

section \<open>The sweep array generator\<close>

text \<open>
  Modelled from the spec: \<open>generate_1D_sweep_array\<close> lives in
  \<^verbatim>\<open>measurement/array.py\<close>, which is not among the sources. The specification
  (section 4.1) gives its contract: for \<open>step > 0\<close> an ordered sequence from \<open>start\<close>
  to \<open>stop\<close> inclusive, advancing by \<open>step\<close> in the direction of \<open>stop - start\<close>,
  whose final element is \<open>stop\<close> exactly (the last interval may be shorter); it fails
  with \<open>InvalidRangeError\<close> when \<open>step \<le> 0\<close>. The points strictly before \<open>stop\<close>
  are \<open>start + i * step\<close> (or \<open>start - i * step\<close>) for
  \<open>i < \<lceil>\<bar>stop - start\<bar> / step\<rceil>\<close>.
\<close>

definition generate_1D_sweep_array :: "real \<Rightarrow> real \<Rightarrow> real \<Rightarrow> error + real list" where
  "generate_1D_sweep_array start stop step =
     (if step \<le> 0 then Inl InvalidRangeError
      else Inr (map (\<lambda>i. start + sgn (stop - start) * (real i * step))
                    [0 ..< nat \<lceil>\<bar>stop - start\<bar> / step\<rceil>] @ [stop]))"

section \<open>The position stepper\<close>

text \<open>
  \<^verbatim>\<open>
  def _go_to(v0, v1, channel, desc=None, threshold=None):
      array = generate_1D_sweep_array(v0, v1, step=2e-1)
      time.sleep(.5)
      for v in tqdm(array, leave=False, desc=desc):
          channel.volt(v)
          channel.curr()
          time.sleep(0.1)
          if threshold and channel.curr() > threshold:
              break
      time.sleep(.5)
      return v
  \<close>
  The loop variable \<open>v\<close> is unbound until the first iteration, so it is an option in
  the model. The guard \<open>threshold and ...\<close> short-circuits: for \<open>None\<close> and for
  \<open>0.0\<close> the current is not read again. The progress bar only observes the
  iteration, so \<open>desc\<close> is carried and not used.
\<close>

fun go_to_loop ::
  "hardware \<Rightarrow> chan \<Rightarrow> real option \<Rightarrow> real list \<Rightarrow> real option \<Rightarrow> history
     \<Rightarrow> real option \<times> history" where
  "go_to_loop hw channel threshold [] v h = (v, h)"
| "go_to_loop hw channel threshold (x # array) v h =
     (let h1 = volt_set channel x h;
          h2 = snd (curr_get hw channel h1);
          h3 = sleep (1/10) h2
      in (case threshold of
            None \<Rightarrow> go_to_loop hw channel threshold array (Some x) h3
          | Some t \<Rightarrow>
              if t = 0 then go_to_loop hw channel threshold array (Some x) h3
              else let (c, h4) = curr_get hw channel h3
                   in if c > t then (Some x, h4)
                      else go_to_loop hw channel threshold array (Some x) h4))"

definition go_to ::
  "hardware \<Rightarrow> real \<Rightarrow> real \<Rightarrow> chan \<Rightarrow> fragment list option \<Rightarrow> real option
     \<Rightarrow> history
     \<Rightarrow> (error + real) \<times> history" where
  "go_to hw v0 v1 channel desc threshold h =
     (case generate_1D_sweep_array v0 v1 (2/10) of
        Inl e \<Rightarrow> (Inl e, h)
      | Inr array \<Rightarrow>
          let h1 = sleep (1/2) h;
              (v, h2) = go_to_loop hw channel threshold array None h1;
              h3 = sleep (1/2) h2
          in (case v of
                None \<Rightarrow> (Inl UnboundLocalError, h3)
              | Some x \<Rightarrow> (Inr x, h3)))"

text \<open>The setpoints written to a channel, in order, read off a history.\<close>

fun writes :: "chan \<Rightarrow> history \<Rightarrow> real list" where
  "writes c [] = []"
| "writes c (Volt_set c' v # es) = (if c' = c then v # writes c es else writes c es)"
| "writes c (e # es) = writes c es"

text \<open>Python's truth value of the optional threshold: \<open>None\<close> and \<open>0.0\<close> are false.\<close>

fun truthy :: "real option \<Rightarrow> bool" where
  "truthy None = False"
| "truthy (Some t) = (t \<noteq> 0)"

text \<open>
  The event sequence in the words of the specification (section 4.2), to compare the
  code against: a settle delay, then for each step the write of the setpoint, a read of
  the current, the inter-step delay and the threshold check (which, when a threshold is
  in force, is a second read of the current), and a settle delay at the end. A step is
  the setpoint with the two values read.
\<close>

fun step_events :: "chan \<Rightarrow> bool \<Rightarrow> real \<times> real \<times> real \<Rightarrow> history" where
  "step_events ch checked (v, r, c) =
     [Volt_set ch v, Curr_get ch r, Sleep (1/10)] @ (if checked then [Curr_get ch c] else [])"

definition stepper_events :: "chan \<Rightarrow> bool \<Rightarrow> (real \<times> real \<times> real) list \<Rightarrow> history" where
  "stepper_events ch checked steps =
     [Sleep (1/2)] @ concat (map (step_events ch checked) steps) @ [Sleep (1/2)]"

section \<open>The station and lock-in discovery\<close>

text \<open>
  A component of the station is known by its class and the proper ancestors of that
  class. \<open>isinstance(itm, C)\<close> holds for the class itself and for every ancestor;
  \<open>itm.__class__ == C\<close> holds for the class itself only. \<open>station.components\<close>
  is a dictionary, kept as the list of its items in iteration order. The station is
  taken to carry the \<open>keithley\<close> and \<open>triton\<close> instruments that \<open>gate_map\<close>
  reads as attributes.
\<close>

record component =
  comp_class :: string
  comp_bases :: "string list"

record station =
  components :: "(string \<times> component) list"

definition Instrument :: string where
  "Instrument = ''qcodes.Instrument''"

definition MFLI :: string where
  "MFLI = ''zhinst.qcodes.mfli.MFLI''"

definition isinstance :: "component \<Rightarrow> string \<Rightarrow> bool" where
  "isinstance itm c = (comp_class itm = c \<or> c \<in> set (comp_bases itm))"

text \<open>
  \<^verbatim>\<open>
  lockins = []
  for name, itm in station.components.items():
      if isinstance(itm, Instrument):
          if itm.__class__ == zhinst.qcodes.mfli.MFLI:
              lockins.append(name)
  \<close>
  The same five lines open \<open>gate_map\<close> (after the Keithley is initialised) and
  \<open>initialise_lockin\<close>.
\<close>

fun discover_loop :: "(string \<times> component) list \<Rightarrow> string list \<Rightarrow> string list" where
  "discover_loop [] lockins = lockins"
| "discover_loop ((name, itm) # items) lockins =
     (if isinstance itm Instrument then
        (if comp_class itm = MFLI then discover_loop items (lockins @ [name])
         else discover_loop items lockins)
      else discover_loop items lockins)"

definition discover_lockins :: "station \<Rightarrow> string list" where
  "discover_lockins st = discover_loop (components st) []"

section \<open>The gate-map procedure\<close>

text \<open>
  Modelled from the spec: \<open>initialise_keithley\<close> (\<^verbatim>\<open>instrument/keithley.py\<close>) and
  \<open>sweep2d\<close> (\<^verbatim>\<open>measurement/sweep.py\<close>) are not among the sources. By the
  specification (sections 4.3, 4.4 and 6) the first is a procedure that places the
  source-measure unit in a known safe state and returns nothing that is used, the second
  returns a handle to the persisted dataset or propagates a failure. Each is one event;
  what \<open>sweep2d\<close> returns is the hardware's \<open>sweep2d_resp\<close>.
\<close>

definition initialise_keithley :: "station \<Rightarrow> history \<Rightarrow> history" where
  "initialise_keithley st h = h @ [Initialise_keithley]"

definition sweep2d :: "hardware \<Rightarrow> sweep2d_call \<Rightarrow> history \<Rightarrow> (error + nat) \<times> history" where
  "sweep2d hw call h = (sweep2d_resp hw h call, h @ [Sweep2d call])"

text \<open>Python's \<open>str\<close> of an optional string inside an f-string.\<close>

fun format_label :: "string option \<Rightarrow> string" where
  "format_label None = ''None''"
| "format_label (Some l) = l"

text \<open>
  \<^verbatim>\<open>
  def gate_map(xarray, inner_delay, yarray, outer_delay, station,
               exp=None, label=None, measure_retrace=False):
      initialise_keithley(station)
      lockins = ...                       # the discovery loop above
      init_tg = station.keithley.smua.volt()
      init_bg = station.keithley.smub.volt()
      _go_to(init_tg, xarray[0], station.keithley.smua,
             desc=f'sweeping top gate to {init_tg} V')
      _go_to(init_bg, yarray[0], station.keithley.smub,
             desc=f'sweeping back gate to {init_bg} V')
      raw_data = sweep2d(
          station.keithley.smua.volt, xarray, inner_delay,
          station.keithley.smub.volt, yarray, outer_delay,
          *tuple(station.__getattr__(lockin).demods[0].sample
                 for lockin in lockins),
          station.triton.T8, station.triton.Bz,
          station.keithley.smua.curr, station.keithley.smub.curr,
          exp=exp, measurement_name=f'gate map {label}',
          use_threads=True, measure_retrace=measure_retrace)
      return raw_data
  \<close>
  \<open>xarray[0]\<close> and \<open>yarray[0]\<close> raise \<open>IndexError\<close> on an empty array, each when
  the arguments of its \<open>_go_to\<close> call are evaluated.
\<close>

definition gate_map ::
  "hardware \<Rightarrow> real list \<Rightarrow> real \<Rightarrow> real list \<Rightarrow> real \<Rightarrow> station \<Rightarrow> nat option
     \<Rightarrow> string option \<Rightarrow> bool option \<Rightarrow> history \<Rightarrow> (error + nat) \<times> history" where
  "gate_map hw xarray inner_delay yarray outer_delay st expt label measure_retrace h =
     (let h1 = initialise_keithley st h;
          lockins = discover_lockins st;
          (init_tg, h2) = volt_get hw Smua h1;
          (init_bg, h3) = volt_get hw Smub h2
      in (case xarray of
            [] \<Rightarrow> (Inl IndexError, h3)
          | x0 # _ \<Rightarrow>
             (case go_to hw init_tg x0 Smua
                     (Some [Lit ''sweeping top gate to '', Num init_tg, Lit '' V'']) None h3 of
                (Inl e, h4) \<Rightarrow> (Inl e, h4)
              | (Inr _, h4) \<Rightarrow>
                 (case yarray of
                    [] \<Rightarrow> (Inl IndexError, h4)
                  | y0 # _ \<Rightarrow>
                     (case go_to hw init_bg y0 Smub
                             (Some [Lit ''sweeping back gate to '', Num init_bg, Lit '' V''])
                             None h4 of
                        (Inl e, h5) \<Rightarrow> (Inl e, h5)
                      | (Inr _, h5) \<Rightarrow>
                         sweep2d hw
                           \<lparr> param_set1 = Smua, xarray_arg = xarray,
                             inner_delay_arg = inner_delay,
                             param_set2 = Smub, yarray_arg = yarray,
                             outer_delay_arg = outer_delay,
                             param_meas = map Demod0_sample lockins
                               @ [Triton_T8, Triton_Bz, Keithley_curr Smua, Keithley_curr Smub],
                             exp_arg = expt,
                             measurement_name = ''gate map '' @ format_label label,
                             use_threads = True,
                             measure_retrace_arg = measure_retrace \<rparr>
                           h5)))))"

section \<open>Lock-in initialisation\<close>

text \<open>
  \<open>initialise_lockin\<close> makes the first discovered lock-in the reference source, the
  others followers, and then configures the first demodulator and the signal input of
  every one. Each statement of the source writes one node; \<open>lockins[0]\<close> in the first
  of them raises \<open>IndexError\<close> when nothing was discovered. \<open>2**(1/2)\<close> is the
  square root of two, written \<open>Sqrt 2\<close>.
\<close>

definition reference_events :: "string \<Rightarrow> real \<Rightarrow> history" where
  "reference_events l freq =
     [Lockin_set l ''oscs[0].freq'' (Number freq),
      Lockin_set l ''sigouts[0].on'' (Number 1),
      Lockin_set l ''sigouts[0].range'' (Number 10),
      Lockin_set l ''sigouts[0].amplitudes0'' (Sqrt 2),
      Lockin_set l ''sigouts[0].enables0'' (Number 1),
      Lockin_set l ''sigouts[0].enables1'' (Number 0),
      Lockin_set l ''sigouts[0].imp50'' (Number 0),
      Lockin_set l ''sigouts[0].offset'' (Number 0),
      Lockin_set l ''sigouts[0].diff'' (Number 0),
      Lockin_set l ''triggers.out[0].source'' (Number 52),
      Lockin_set l ''triggers.out[1].source'' (Number 1)]"

definition follower_events :: "string \<Rightarrow> history" where
  "follower_events l =
     [Lockin_set l ''demods[1].adcselect'' (Number 3),
      Lockin_set l ''extrefs[0].enable'' (Number 1),
      Lockin_set l ''sigouts[0].on'' (Number 0),
      Lockin_set l ''triggers.out[0].source'' (Number 0),
      Lockin_set l ''triggers.out[1].source'' (Number 0)]"

definition common_events :: "string \<Rightarrow> history" where
  "common_events l =
     [Lockin_set l ''demods[0].oscselect'' (Number 0),
      Lockin_set l ''demods[0].harmonic'' (Number 1),
      Lockin_set l ''demods[0].phaseshift'' (Number 0),
      Lockin_set l ''demods[0].sinc'' (Number 1),
      Lockin_set l ''demods[0].timeconstant'' (Number (1/10)),
      Lockin_set l ''demods[0].order'' (Number 8),
      Lockin_set l ''sigins[0].ac'' (Number 1),
      Lockin_set l ''sigins[0].imp50'' (Number 0),
      Lockin_set l ''sigins[0].diff'' (Number 1),
      Lockin_set l ''sigins[0].float'' (Number 0),
      Lockin_set l ''sigins[0].scaling'' (Number 1),
      Lockin_set l ''sigins[0].range'' (Number (3/1000)),
      Lockin_set l ''sigouts[0].range'' (Number 10)]"

definition initialise_lockin :: "station \<Rightarrow> real \<Rightarrow> history \<Rightarrow> (error + unit) \<times> history" where
  "initialise_lockin st freq h =
     (let lockins = discover_lockins st
      in (case lockins of
            [] \<Rightarrow> (Inl IndexError, h)
          | l0 # others \<Rightarrow>
              (Inr (),
               h @ reference_events l0 freq
                 @ concat (map follower_events others)
                 @ concat (map common_events lockins)
                 @ [Print [Lit ''Lock-in '', Lit l0,
                           Lit '' sources the reference signal with f='', Num freq,
                           Lit (''Hz'' @ [CHR 0x0A] @ ''Output voltage: 1V'' @ [CHR 0x0A]
                                @ ''Lock-ins ''),
                           Names others,
                           Lit '' are in sync. You can start measuring.'']])))"

section \<open>Plotting a dataset\<close>

text \<open>
  \<open>plot_dataset_1D\<close> and \<open>plot_dataset_2D\<close> load a dataset, convert a complex
  parameter into one or two real ones, pick a component, and draw one panel per
  component. Loading, conversion and drawing belong to qcodes, matplotlib and the
  toolkit's own \<^verbatim>\<open>analysis/load.py\<close>; they are the fields of \<open>plot_env\<close>, each
  free to fail. A converted dataset is a list with one entry per panel; an entry is the
  list of its parameters (setpoints first), of which the model keeps the names. What is
  printed is the list of lines threaded through the functions.
\<close>

type_synonym dataset_id = "nat + string"

type_synonym plot_data = "string list"

text \<open>
  \<open>plt.subplots\<close> answers with one axes object or with an array of them; only the
  array can be iterated.
\<close>

datatype axes = Axes nat | Axes_array "nat list"

datatype plot_result = No_result | Axes_and_colorbars axes "nat option list"

record plot_env =
  get_dataset :: "dataset_id \<Rightarrow> error + nat"
  list_parameters :: "dataset_id \<Rightarrow> error + string list"
  preparsed :: "nat \<Rightarrow> string \<Rightarrow> string \<Rightarrow> bool \<Rightarrow> error + plot_data list"
  subplots :: "nat \<Rightarrow> error + axes"
  draw_1D :: "plot_data \<Rightarrow> nat \<Rightarrow> bool \<Rightarrow> error option"
  draw_2D :: "plot_data \<Rightarrow> nat \<Rightarrow> bool \<Rightarrow> error option"

text \<open>\<open>xs[i]\<close> for a literal index \<open>i \<ge> 0\<close>.\<close>

definition py_index :: "'a list \<Rightarrow> nat \<Rightarrow> error + 'a" where
  "py_index xs i = (if i < length xs then Inr (xs ! i) else Inl IndexError)"

text \<open>\<open>dataset[i][j]['name']\<close>.\<close>

definition param_name :: "plot_data list \<Rightarrow> nat \<Rightarrow> nat \<Rightarrow> error + string" where
  "param_name dataset i j =
     (case py_index dataset i of Inl e \<Rightarrow> Inl e | Inr d \<Rightarrow> py_index d j)"

text \<open>
  \<^verbatim>\<open>
  if complex_plot_type == 'real' or complex_plot_type == 'imag':
      complex_type = 'real_and_imag'
  elif complex_plot_type == 'mag' or complex_plot_type == 'phase':
      complex_type = 'mag_and_phase'
  else:
      complex_type = complex_plot_type
  \<close>
\<close>

definition conversion_of :: "string \<Rightarrow> string" where
  "conversion_of complex_plot_type =
     (if complex_plot_type = ''real'' \<or> complex_plot_type = ''imag'' then ''real_and_imag''
      else if complex_plot_type = ''mag'' \<or> complex_plot_type = ''phase'' then ''mag_and_phase''
      else complex_plot_type)"

text \<open>
  \<^verbatim>\<open>
  if complex_plot_type == 'real' or complex_plot_type == 'mag':
      dataset = [dataset[0]]
  elif complex_plot_type == 'imag' or complex_plot_type == 'phase':
      try:
          dataset = [dataset[1]]
      except ValueError:
          print('the dataset had no imaginary part')
  \<close>
  The handler takes \<open>ValueError\<close> only; after it the dataset is what it was. The same
  lines stand in both plotting functions.
\<close>

definition no_imaginary_part :: string where
  "no_imaginary_part = ''the dataset had no imaginary part''"

definition select_component ::
  "string \<Rightarrow> plot_data list \<Rightarrow> string list \<Rightarrow> (error + plot_data list) \<times> string list" where
  "select_component complex_plot_type dataset out =
     (if complex_plot_type = ''real'' \<or> complex_plot_type = ''mag'' then
        (case py_index dataset 0 of
           Inl e \<Rightarrow> (Inl e, out)
         | Inr d \<Rightarrow> (Inr [d], out))
      else if complex_plot_type = ''imag'' \<or> complex_plot_type = ''phase'' then
        (case py_index dataset 1 of
           Inl e \<Rightarrow> if e = ValueError then (Inr dataset, out @ [no_imaginary_part])
                    else (Inl e, out)
         | Inr d \<Rightarrow> (Inr [d], out))
      else (Inr dataset, out))"

text \<open>
  \<open>zip(dataset, axeslist)\<close> pairs the panels with the axes and stops at the shorter;
  a single axes object is not iterable.
\<close>

fun py_zip :: "plot_data list \<Rightarrow> axes \<Rightarrow> error + (plot_data \<times> nat) list" where
  "py_zip dataset (Axes a) = Inl TypeError"
| "py_zip dataset (Axes_array as) = Inr (zip dataset as)"

text \<open>
  The body of the drawing loop reads \<open>data[0]\<close> and \<open>data[1]\<close> (and \<open>data[2]\<close>
  for a map) before it draws.
\<close>

definition body_1D :: "plot_env \<Rightarrow> bool \<Rightarrow> plot_data \<Rightarrow> nat \<Rightarrow> error option" where
  "body_1D env rescale_axes data ax =
     (if length data < 2 then Some IndexError else draw_1D env data ax rescale_axes)"

definition body_2D :: "plot_env \<Rightarrow> bool \<Rightarrow> plot_data \<Rightarrow> nat \<Rightarrow> error option" where
  "body_2D env rescale_axes data ax =
     (if length data < 3 then Some IndexError else draw_2D env data ax rescale_axes)"

fun draw_all :: "(plot_data \<Rightarrow> nat \<Rightarrow> error option) \<Rightarrow> (plot_data \<times> nat) list \<Rightarrow> error option" where
  "draw_all body [] = None"
| "draw_all body ((data, ax) # pairs) =
     (case body data ax of Some e \<Rightarrow> Some e | None \<Rightarrow> draw_all body pairs)"

definition valid_types :: "string list" where
  "valid_types = [''real_and_imag'', ''mag_and_phase'', ''real'', ''imag'', ''mag'', ''phase'']"

definition valid_phases :: "string list" where
  "valid_phases = [''radians'', ''degrees'']"

definition header_1D :: "string \<Rightarrow> string \<Rightarrow> string" where
  "header_1D x var =
     ''plot_dataset_1D:'' @ [CHR 0x0A] @ ''X_axis: '' @ x @ [CHR 0x09] @ '' Y_axis: '' @ var"

definition header_2D :: "string \<Rightarrow> string \<Rightarrow> string \<Rightarrow> string" where
  "header_2D x y var =
     ''plot_dataset_2D:'' @ [CHR 0x0A] @ ''X_axis: '' @ x @ [CHR 0x09] @ '' Y_axis: '' @ y
       @ [CHR 0x09] @ '' Z_axis: '' @ var"

text \<open>
  \<open>plot_dataset_1D\<close> (plot.py, lines 33 to 134). The function ends after its drawing
  loop with no \<open>return\<close> statement, so what it gives back is \<open>None\<close>.
\<close>

definition plot_dataset_1D ::
  "plot_env \<Rightarrow> dataset_id \<Rightarrow> string \<Rightarrow> bool \<Rightarrow> string \<Rightarrow> string \<Rightarrow> string list
     \<Rightarrow> (error + plot_result) \<times> string list" where
  "plot_dataset_1D env ident var rescale_axes complex_plot_type complex_plot_phase out =
     (if complex_plot_type \<notin> set valid_types then (Inl ValueError, out)
      else if complex_plot_phase \<notin> set valid_phases then (Inl ValueError, out)
      else
        (let degrees = (complex_plot_phase = ''degrees'');
             complex_type = conversion_of complex_plot_type
         in (case get_dataset env ident of
               Inl e \<Rightarrow> (Inl e, out)
             | Inr dat \<Rightarrow>
           (case list_parameters env ident of
               Inl e \<Rightarrow> (Inl e, out)
             | Inr dependents \<Rightarrow>
           if var \<notin> set dependents then (Inl ValueError, out)
           else
           (case preparsed env dat var complex_type degrees of
               Inl e \<Rightarrow> (Inl e, out)
             | Inr dataset \<Rightarrow>
           (case param_name dataset 0 0 of
               Inl e \<Rightarrow> (Inl e, out)
             | Inr x \<Rightarrow>
           (case select_component complex_plot_type dataset out of
               (Inl e, out1) \<Rightarrow> (Inl e, out1)
             | (Inr dataset1, out1) \<Rightarrow>
           (let nplots = length dataset1;
                out2 = out1 @ [header_1D x var]
            in (case subplots env nplots of
                  Inl e \<Rightarrow> (Inl e, out2)
                | Inr axeslist \<Rightarrow>
               (case py_zip dataset1 axeslist of
                  Inl e \<Rightarrow> (Inl e, out2)
                | Inr pairs \<Rightarrow>
               (case draw_all (body_1D env rescale_axes) pairs of
                  Some e \<Rightarrow> (Inl e, out2)
                | None \<Rightarrow> (Inr No_result, out2))))))))))))"

text \<open>
  \<open>plot_dataset_2D\<close> (plot.py, lines 137 to 247). \<open>colorbars = [None]*nplots\<close> is
  built before the loop; the loop rebinds its own variable \<open>colorbar\<close> and leaves the
  list alone. The function ends with \<open>return axeslist, colorbars\<close>.
\<close>

definition plot_dataset_2D ::
  "plot_env \<Rightarrow> dataset_id \<Rightarrow> string \<Rightarrow> bool \<Rightarrow> string \<Rightarrow> string \<Rightarrow> string list
     \<Rightarrow> (error + plot_result) \<times> string list" where
  "plot_dataset_2D env ident var rescale_axes complex_plot_type complex_plot_phase out =
     (if complex_plot_type \<notin> set valid_types then (Inl ValueError, out)
      else if complex_plot_phase \<notin> set valid_phases then (Inl ValueError, out)
      else
        (let degrees = (complex_plot_phase = ''degrees'');
             complex_type = conversion_of complex_plot_type
         in (case get_dataset env ident of
               Inl e \<Rightarrow> (Inl e, out)
             | Inr dat \<Rightarrow>
           (case list_parameters env ident of
               Inl e \<Rightarrow> (Inl e, out)
             | Inr dependents \<Rightarrow>
           if var \<notin> set dependents then (Inl ValueError, out)
           else
           (case preparsed env dat var complex_type degrees of
               Inl e \<Rightarrow> (Inl e, out)
             | Inr dataset \<Rightarrow>
           (case param_name dataset 0 0 of
               Inl e \<Rightarrow> (Inl e, out)
             | Inr x \<Rightarrow>
           (case param_name dataset 0 1 of
               Inl e \<Rightarrow> (Inl e, out)
             | Inr y \<Rightarrow>
           (case select_component complex_plot_type dataset out of
               (Inl e, out1) \<Rightarrow> (Inl e, out1)
             | (Inr dataset1, out1) \<Rightarrow>
           (let nplots = length dataset1;
                out2 = out1 @ [header_2D x y var]
            in (case subplots env nplots of
                  Inl e \<Rightarrow> (Inl e, out2)
                | Inr axeslist \<Rightarrow>
               (let colorbars = replicate nplots None
                in (case py_zip dataset1 axeslist of
                      Inl e \<Rightarrow> (Inl e, out2)
                    | Inr pairs \<Rightarrow>
                   (case draw_all (body_2D env rescale_axes) pairs of
                      Some e \<Rightarrow> (Inl e, out2)
                    | None \<Rightarrow> (Inr (Axes_and_colorbars axeslist colorbars), out2))))))))))))))"

section \<open>Concrete instruments and datasets\<close>

text \<open>
  The scenario of the specification (section 8): the current reads 2.0 once a setpoint of
  1.0 or more has been written to the channel, and 0 before. Its mirror image reads -2.0
  instead: a current of the same magnitude in the other direction.
\<close>

definition reads_from_one :: "real \<Rightarrow> hardware" where
  "reads_from_one level =
     \<lparr> volt_resp = (\<lambda>h c. 0),
       curr_resp = (\<lambda>h c. if writes c h \<noteq> [] \<and> 1 \<le> last (writes c h) then level else 0),
       sweep2d_resp = (\<lambda>h call. Inr (length (param_meas call))) \<rparr>"

text \<open>
  A station with the Keithley, the Triton, a stand-alone parameter, one MFLI lock-in and
  an instrument whose class derives from MFLI; and the same station without the MFLI.
\<close>

definition keithley_component :: component where
  "keithley_component = \<lparr> comp_class = ''Keithley_2600'', comp_bases = [Instrument] \<rparr>"

definition triton_component :: component where
  "triton_component = \<lparr> comp_class = ''Triton'', comp_bases = [Instrument] \<rparr>"

definition parameter_component :: component where
  "parameter_component = \<lparr> comp_class = ''Parameter'', comp_bases = [] \<rparr>"

definition mfli_component :: component where
  "mfli_component = \<lparr> comp_class = MFLI, comp_bases = [Instrument] \<rparr>"

definition derived_mfli_component :: component where
  "derived_mfli_component = \<lparr> comp_class = ''MyMFLI'', comp_bases = [MFLI, Instrument] \<rparr>"

definition station_with_lockin :: station where
  "station_with_lockin =
     \<lparr> components = [(''keithley'', keithley_component), (''triton'', triton_component),
                       (''mf1'', mfli_component), (''mf2'', derived_mfli_component),
                       (''current_range'', parameter_component)] \<rparr>"

definition station_without_lockin :: station where
  "station_without_lockin =
     \<lparr> components = [(''keithley'', keithley_component), (''triton'', triton_component),
                       (''current_range'', parameter_component)] \<rparr>"

text \<open>
  A plotting environment over one run with the dependent parameter \<open>R\<close>: the
  conversion gives \<open>parts\<close> panels, \<open>plt.subplots\<close> gives one axes object for
  one panel and an array otherwise, and drawing succeeds.
\<close>

definition plotting_env :: "nat \<Rightarrow> plot_env" where
  "plotting_env parts =
     \<lparr> get_dataset = (\<lambda>i. Inr 1),
       list_parameters = (\<lambda>i. Inr [''R'']),
       preparsed = (\<lambda>dat var conv deg. Inr (replicate parts [''Vtg'', ''Vbg'', ''R''])),
       subplots = (\<lambda>n. if n = 0 then Inl ValueError
                         else if n = 1 then Inr (Axes 0) else Inr (Axes_array [0 ..< n])),
       draw_1D = (\<lambda>d a r. None),
       draw_2D = (\<lambda>d a r. None) \<rparr>"

section \<open>Properties of the position stepper\<close>

lemma writes_append: "writes c (xs @ ys) = writes c xs @ writes c ys"
  by (induction c xs rule: writes.induct) auto

text \<open>One iteration of the loop, in each of its three outcomes.\<close>

lemma go_to_loop_Cons_unchecked:
  "\<not> truthy thr \<Longrightarrow>
   go_to_loop hw ch thr (x # xs) v h =
     go_to_loop hw ch thr xs (Some x)
       (h @ [Volt_set ch x, Curr_get ch (curr_resp hw (h @ [Volt_set ch x]) ch), Sleep (1/10)])"
  by (cases thr) (simp_all add: Let_def sleep_def volt_set_def curr_get_def)

lemma go_to_loop_Cons_abort:
  "t \<noteq> 0 \<Longrightarrow> r = curr_resp hw (h @ [Volt_set ch x]) ch \<Longrightarrow>
   c = curr_resp hw (h @ [Volt_set ch x, Curr_get ch r, Sleep (1/10)]) ch \<Longrightarrow> t < c \<Longrightarrow>
   go_to_loop hw ch (Some t) (x # xs) v h =
     (Some x, h @ [Volt_set ch x, Curr_get ch r, Sleep (1/10), Curr_get ch c])"
  by (simp add: Let_def sleep_def volt_set_def curr_get_def)

lemma go_to_loop_Cons_continue:
  "t \<noteq> 0 \<Longrightarrow> r = curr_resp hw (h @ [Volt_set ch x]) ch \<Longrightarrow>
   c = curr_resp hw (h @ [Volt_set ch x, Curr_get ch r, Sleep (1/10)]) ch \<Longrightarrow> \<not> t < c \<Longrightarrow>
   go_to_loop hw ch (Some t) (x # xs) v h =
     go_to_loop hw ch (Some t) xs (Some x)
       (h @ [Volt_set ch x, Curr_get ch r, Sleep (1/10), Curr_get ch c])"
  by (simp add: Let_def sleep_def volt_set_def curr_get_def)

text \<open>
  What a run of the loop adds to the history: the events of its steps, for an initial
  segment of the array, which stops short only where the check found the current above
  the threshold.
\<close>

lemma go_to_loop_shape:
  "go_to_loop hw ch thr xs v h = (v', h') \<Longrightarrow>
   \<exists>steps rest. h' = h @ concat (map (step_events ch (truthy thr)) steps)
      \<and> xs = map fst steps @ rest
      \<and> v' = (if steps = [] then v else Some (fst (last steps)))
      \<and> (xs \<noteq> [] \<longrightarrow> steps \<noteq> [])
      \<and> (rest \<noteq> [] \<longrightarrow> (\<exists>t. thr = Some t \<and> t \<noteq> 0 \<and> t < snd (snd (last steps))))"
proof (induction xs arbitrary: v h)
  case Nil
  then have "h' = h @ concat (map (step_events ch (truthy thr)) []) \<and> [] = map fst ([]::(real \<times> real \<times> real) list) @ []
     \<and> v' = v" by simp
  then show ?case by (intro exI[of _ "[]"]) simp
next
  case (Cons x xs)
  define r where "r = curr_resp hw (h @ [Volt_set ch x]) ch"
  define h3 where "h3 = h @ [Volt_set ch x, Curr_get ch r, Sleep (1/10)]"
  define c where "c = curr_resp hw h3 ch"
  show ?case
  proof (cases "truthy thr")
    case False
    with Cons.prems have "go_to_loop hw ch thr xs (Some x) h3 = (v', h')"
      by (simp add: go_to_loop_Cons_unchecked h3_def r_def del: go_to_loop.simps)
    from Cons.IH[OF this] obtain steps rest where
      st: "h' = h3 @ concat (map (step_events ch (truthy thr)) steps)"
        "xs = map fst steps @ rest"
        "v' = (if steps = [] then Some x else Some (fst (last steps)))"
        "xs \<noteq> [] \<longrightarrow> steps \<noteq> []"
        "rest \<noteq> [] \<longrightarrow> (\<exists>t. thr = Some t \<and> t \<noteq> 0 \<and> t < snd (snd (last steps)))"
      by blast
    have st5: "rest \<noteq> [] \<longrightarrow> steps \<noteq> []" using st(2,4) by auto
    let ?steps = "(x, r, 0) # steps"
    have "h' = h @ concat (map (step_events ch (truthy thr)) ?steps)"
      using st(1) False by (simp add: h3_def)
    moreover have "x # xs = map fst ?steps @ rest" using st(2) by simp
    moreover have "v' = (if ?steps = [] then v else Some (fst (last ?steps)))"
      using st(3) by simp
    ultimately show ?thesis using st(5) st5 by (intro exI[of _ ?steps] exI[of _ rest]) simp
  next
    case True
    then obtain t where t: "thr = Some t" "t \<noteq> 0" by (cases thr) auto
    show ?thesis
    proof (cases "t < c")
      case lt: True
      have "go_to_loop hw ch (Some t) (x # xs) v h = (Some x, h3 @ [Curr_get ch c])"
        using go_to_loop_Cons_abort[OF t(2) r_def _ , of c xs v] lt
        by (simp add: c_def h3_def del: go_to_loop.simps)
      with Cons.prems t have eq: "v' = Some x" "h' = h3 @ [Curr_get ch c]"
        by (simp_all del: go_to_loop.simps)
      let ?steps = "[(x, r, c)]"
      have "h' = h @ concat (map (step_events ch (truthy thr)) ?steps)"
        using eq True by (simp add: h3_def)
      then show ?thesis using eq t lt
        by (intro exI[of _ ?steps] exI[of _ xs]) simp
    next
      case ge: False
      have "go_to_loop hw ch (Some t) (x # xs) v h =
          go_to_loop hw ch (Some t) xs (Some x) (h3 @ [Curr_get ch c])"
        using go_to_loop_Cons_continue[OF t(2) r_def _ , of c xs v] ge
        by (simp add: c_def h3_def del: go_to_loop.simps)
      with Cons.prems t have "go_to_loop hw ch thr xs (Some x) (h3 @ [Curr_get ch c]) = (v', h')"
        by (simp del: go_to_loop.simps)
      from Cons.IH[OF this] obtain steps rest where
        st: "h' = (h3 @ [Curr_get ch c]) @ concat (map (step_events ch (truthy thr)) steps)"
          "xs = map fst steps @ rest"
          "v' = (if steps = [] then Some x else Some (fst (last steps)))"
          "xs \<noteq> [] \<longrightarrow> steps \<noteq> []"
          "rest \<noteq> [] \<longrightarrow> (\<exists>t. thr = Some t \<and> t \<noteq> 0 \<and> t < snd (snd (last steps)))"
        by blast
      have st5: "rest \<noteq> [] \<longrightarrow> steps \<noteq> []" using st(2,4) by auto
      let ?steps = "(x, r, c) # steps"
      have "h' = h @ concat (map (step_events ch (truthy thr)) ?steps)"
        using st(1) True by (simp add: h3_def)
      moreover have "x # xs = map fst ?steps @ rest" using st(2) by simp
      moreover have "v' = (if ?steps = [] then v else Some (fst (last ?steps)))"
        using st(3) by simp
      ultimately show ?thesis using True st(5) st5
        by (intro exI[of _ ?steps] exI[of _ rest]) simp
    qed
  qed
qed


text \<open>The sweep array for the step 0.2 of the stepper is never empty and ends at the target.\<close>

lemma generate_step_fifth:
  "\<exists>array. generate_1D_sweep_array v0 v1 (1/5) = Inr array \<and> array \<noteq> [] \<and> last array = v1"
  by (simp add: generate_1D_sweep_array_def)

lemma writes_step_events: "writes ch (step_events ch checked s) = [fst s]"
  by (cases s) simp

lemma writes_steps: "writes ch (concat (map (step_events ch checked) steps)) = map fst steps"
  by (induction steps) (simp_all add: writes_append writes_step_events)

lemma writes_stepper_events: "writes ch (stepper_events ch checked steps) = map fst steps"
  by (simp add: stepper_events_def writes_append writes_steps)

lemma go_to_shape:
  assumes "go_to hw v0 v1 ch desc thr h = (res, h')"
  shows "\<exists>array steps rest. generate_1D_sweep_array v0 v1 (1/5) = Inr array
      \<and> array = map fst steps @ rest \<and> steps \<noteq> []
      \<and> h' = h @ stepper_events ch (truthy thr) steps
      \<and> res = Inr (fst (last steps))
      \<and> (rest \<noteq> [] \<longrightarrow> (\<exists>t. thr = Some t \<and> t \<noteq> 0 \<and> t < snd (snd (last steps))))"
proof -
  obtain array where arr: "generate_1D_sweep_array v0 v1 (1/5) = Inr array" "array \<noteq> []"
    using generate_step_fifth by blast
  obtain v h2 where loop: "go_to_loop hw ch thr array None (h @ [Sleep (1/2)]) = (v, h2)"
    by (cases "go_to_loop hw ch thr array None (h @ [Sleep (1/2)])") 
  from go_to_loop_shape[OF loop] obtain steps rest where
    raw: "h2 = (h @ [Sleep (1/2)]) @ concat (map (step_events ch (truthy thr)) steps)"
      "array = map fst steps @ rest"
      "v = (if steps = [] then None else Some (fst (last steps)))"
      "array \<noteq> [] \<longrightarrow> steps \<noteq> []"
      "rest \<noteq> [] \<longrightarrow> (\<exists>t. thr = Some t \<and> t \<noteq> 0 \<and> t < snd (snd (last steps)))"
    by blast
  note st = raw(1,2) raw(4)[rule_format, OF arr(2)] raw(3) raw(5)
  have v: "v = Some (fst (last steps))" using st(3,4) by simp
  have "go_to hw v0 v1 ch desc thr h = (Inr (fst (last steps)), h2 @ [Sleep (1/2)])"
    using arr(1) loop v by (simp add: go_to_def sleep_def)
  with assms have "res = Inr (fst (last steps))" "h' = h2 @ [Sleep (1/2)]" by simp_all
  then have "h' = h @ stepper_events ch (truthy thr) steps \<and> res = Inr (fst (last steps))"
    using st(1) by (simp add: stepper_events_def)
  with arr(1) st(2,3,5) show ?thesis by blast
qed

lemma go_to_loop_extends:
  "go_to_loop hw ch thr xs v h = (v', h') \<Longrightarrow> \<exists>new. h' = h @ new"
  using go_to_loop_shape by blast

text \<open>
  Where the history of a checked run shows a step whose second reading is above the
  threshold, the run ends with that step. The four events of a step begin with a write,
  so the pattern can only lie on a step of the run.
\<close>

lemma go_to_loop_abort:
  assumes "t \<noteq> 0"
    and "go_to_loop hw ch (Some t) xs v h =
          (v', h @ a @ [Volt_set ch x, Curr_get ch r1, Sleep (1/10), Curr_get ch r2] @ b)"
    and "t < r2"
  shows "b = [] \<and> v' = Some x"
  using assms(2)
proof (induction xs arbitrary: v h a)
  case Nil
  then show ?case by simp
next
  case (Cons y ys)
  define r where "r = curr_resp hw (h @ [Volt_set ch y]) ch"
  define c where "c = curr_resp hw (h @ [Volt_set ch y, Curr_get ch r, Sleep (1/10)]) ch"
  let ?blk = "[Volt_set ch y, Curr_get ch r, Sleep (1/10), Curr_get ch c]"
  let ?pat = "[Volt_set ch x, Curr_get ch r1, Sleep (1/10), Curr_get ch r2]"
  show ?case
  proof (cases "t < c")
    case True
    have "go_to_loop hw ch (Some t) (y # ys) v h = (Some y, h @ ?blk)"
      by (rule go_to_loop_Cons_abort[OF assms(1) r_def c_def True])
    with Cons.prems have v': "v' = Some y" and eq: "a @ ?pat @ b = ?blk"
      by (simp_all del: go_to_loop.simps)
    from eq have "length (a @ ?pat @ b) = length ?blk" by (rule arg_cong)
    then have "a = []" "b = []" by simp_all
    with eq v' show ?thesis by simp
  next
    case False
    have step: "go_to_loop hw ch (Some t) (y # ys) v h =
        go_to_loop hw ch (Some t) ys (Some y) (h @ ?blk)"
      by (rule go_to_loop_Cons_continue[OF assms(1) r_def c_def False])
    from Cons.prems step have run: "go_to_loop hw ch (Some t) ys (Some y) (h @ ?blk) =
        (v', h @ a @ ?pat @ b)" by (simp del: go_to_loop.simps)
    from go_to_loop_extends[OF run] obtain new where "h @ a @ ?pat @ b = (h @ ?blk) @ new" ..
    then have eq: "a @ ?pat @ b = ?blk @ new" by simp
    from run eq have new: "go_to_loop hw ch (Some t) ys (Some y) (h @ ?blk) = (v', (h @ ?blk) @ new)"
      by (simp del: go_to_loop.simps)
    have "\<exists>a'. a = ?blk @ a'"
    proof (cases a)
      case Nil
      with eq False assms(3) show ?thesis by simp
    next
      case (Cons e1 a1)
      note a = this
      show ?thesis
      proof (cases a1)
        case Nil with eq a show ?thesis by simp
      next
        case (Cons e2 a2)
        note a1 = this
        show ?thesis
        proof (cases a2)
          case Nil with eq a a1 show ?thesis by simp
        next
          case (Cons e3 a3)
          note a2 = this
          show ?thesis
          proof (cases a3)
            case Nil with eq a a1 a2 show ?thesis by simp
          next
            case (Cons e4 a4)
            with eq a a1 a2 show ?thesis by simp
          qed
        qed
      qed
    qed
    then obtain a' where a': "a = ?blk @ a'" by blast
    with eq have "new = a' @ ?pat @ b" by simp
    with new have "go_to_loop hw ch (Some t) ys (Some y) (h @ ?blk) =
        (v', (h @ ?blk) @ a' @ ?pat @ b)" by (simp del: go_to_loop.simps)
    from Cons.IH[OF this] show ?thesis .
  qed
qed

lemma go_to_abort_pattern:
  assumes t: "t \<noteq> 0"
    and run: "snd (go_to hw v0 v1 ch desc (Some t) h) =
        h @ a @ [Volt_set ch x, Curr_get ch r1, Sleep (1/10), Curr_get ch r2] @ b"
    and above: "t < r2"
  shows "b = [Sleep (1/2)] \<and> fst (go_to hw v0 v1 ch desc (Some t) h) = Inr x"
proof -
  let ?pat = "[Volt_set ch x, Curr_get ch r1, Sleep (1/10), Curr_get ch r2]"
  obtain array where arr: "generate_1D_sweep_array v0 v1 (1/5) = Inr array"
    using generate_step_fifth by blast
  obtain v h2 where loop: "go_to_loop hw ch (Some t) array None (h @ [Sleep (1/2)]) = (v, h2)"
    by (cases "go_to_loop hw ch (Some t) array None (h @ [Sleep (1/2)])")
  from go_to_loop_extends[OF loop] obtain new where new: "h2 = (h @ [Sleep (1/2)]) @ new" ..
  have g: "go_to hw v0 v1 ch desc (Some t) h =
      ((case v of None \<Rightarrow> Inl UnboundLocalError | Some x \<Rightarrow> Inr x), h2 @ [Sleep (1/2)])"
    using arr loop by (simp add: go_to_def sleep_def split: option.split)
  with run new have eq: "a @ ?pat @ b = Sleep (1/2) # new @ [Sleep (1/2)]" by simp
  obtain a' where a': "a = Sleep (1/2) # a'"
    using eq by (cases a) simp_all
  have "b \<noteq> []"
  proof
    assume "b = []"
    with eq have "last (a @ ?pat) = last (Sleep (1/2) # new @ [Sleep (1/2)])" by simp
    then show False by simp
  qed
  then obtain b' e where b': "b = b' @ [e]" by (metis rev_exhaust)
  from eq a' b' have "(a' @ ?pat @ b') @ [e] = new @ [Sleep (1/2)]" by simp
  then have mid: "a' @ ?pat @ b' = new" and e: "e = Sleep (1/2)" by simp_all
  from loop new mid have "go_to_loop hw ch (Some t) array None (h @ [Sleep (1/2)]) =
      (v, (h @ [Sleep (1/2)]) @ a' @ ?pat @ b')" by simp
  from go_to_loop_abort[OF t this above] have "b' = []" "v = Some x" by simp_all
  with b' e g show ?thesis by simp
qed

text \<open>The runs of the scenario, evaluated.\<close>

lemma sweep_array_0_2:
  "generate_1D_sweep_array 0 2 (1/5) = Inr [0, 1/5, 2/5, 3/5, 4/5, 1, 6/5, 7/5, 8/5, 9/5, 2]"
  by (simp add: generate_1D_sweep_array_def upt_rec)

lemma sweep_array_0_1:
  "generate_1D_sweep_array 0 1 (1/5) = Inr [0, 1/5, 2/5, 3/5, 4/5, 1]"
  by (simp add: generate_1D_sweep_array_def upt_rec)

lemma scenario_run:
  "go_to (reads_from_one 2) 0 2 Smua None (Some (3/2)) [] =
     (Inr 1,
      [Sleep (1/2),
       Volt_set Smua 0, Curr_get Smua 0, Sleep (1/10), Curr_get Smua 0,
       Volt_set Smua (1/5), Curr_get Smua 0, Sleep (1/10), Curr_get Smua 0,
       Volt_set Smua (2/5), Curr_get Smua 0, Sleep (1/10), Curr_get Smua 0,
       Volt_set Smua (3/5), Curr_get Smua 0, Sleep (1/10), Curr_get Smua 0,
       Volt_set Smua (4/5), Curr_get Smua 0, Sleep (1/10), Curr_get Smua 0,
       Volt_set Smua 1, Curr_get Smua 2, Sleep (1/10), Curr_get Smua 2,
       Sleep (1/2)])"
  by (simp add: go_to_def sweep_array_0_2 reads_from_one_def sleep_def volt_set_def curr_get_def)

lemma mirror_run:
  "go_to (reads_from_one (- 2)) 0 2 Smua None (Some (3/2)) [] =
     (Inr 2,
      [Sleep (1/2),
       Volt_set Smua 0, Curr_get Smua 0, Sleep (1/10), Curr_get Smua 0,
       Volt_set Smua (1/5), Curr_get Smua 0, Sleep (1/10), Curr_get Smua 0,
       Volt_set Smua (2/5), Curr_get Smua 0, Sleep (1/10), Curr_get Smua 0,
       Volt_set Smua (3/5), Curr_get Smua 0, Sleep (1/10), Curr_get Smua 0,
       Volt_set Smua (4/5), Curr_get Smua 0, Sleep (1/10), Curr_get Smua 0,
       Volt_set Smua 1, Curr_get Smua (- 2), Sleep (1/10), Curr_get Smua (- 2),
       Volt_set Smua (6/5), Curr_get Smua (- 2), Sleep (1/10), Curr_get Smua (- 2),
       Volt_set Smua (7/5), Curr_get Smua (- 2), Sleep (1/10), Curr_get Smua (- 2),
       Volt_set Smua (8/5), Curr_get Smua (- 2), Sleep (1/10), Curr_get Smua (- 2),
       Volt_set Smua (9/5), Curr_get Smua (- 2), Sleep (1/10), Curr_get Smua (- 2),
       Volt_set Smua 2, Curr_get Smua (- 2), Sleep (1/10), Curr_get Smua (- 2),
       Sleep (1/2)])"
  by (simp add: go_to_def sweep_array_0_2 reads_from_one_def sleep_def volt_set_def curr_get_def)

section \<open>Properties of the gate-map procedure and of lock-in discovery\<close>

text \<open>Without a threshold the stepper goes through its whole array and returns the target.\<close>

lemma go_to_unchecked:
  "\<exists>steps. generate_1D_sweep_array v0 v1 (1/5) = Inr (map fst steps) \<and> steps \<noteq> []
      \<and> go_to hw v0 v1 ch desc None h = (Inr v1, h @ stepper_events ch False steps)"
proof -
  from go_to_shape[OF surjective_pairing [of "go_to hw v0 v1 ch desc None h"]]
  obtain array steps rest where
    st: "generate_1D_sweep_array v0 v1 (1/5) = Inr array"
      "array = map fst steps @ rest" "steps \<noteq> []"
      "snd (go_to hw v0 v1 ch desc None h) = h @ stepper_events ch (truthy None) steps"
      "fst (go_to hw v0 v1 ch desc None h) = Inr (fst (last steps))"
      "rest \<noteq> [] \<longrightarrow> (\<exists>t. (None::real option) = Some t \<and> t \<noteq> 0 \<and> t < snd (snd (last steps)))"
    by blast
  from st(6) have "rest = []" by auto
  with st(2) have arr: "array = map fst steps" by simp
  from generate_step_fifth[of v0 v1] st(1) have "last array = v1" by simp
  with arr st(3) have "fst (last steps) = v1" by (auto simp: last_map)
  with st(4,5) have "go_to hw v0 v1 ch desc None h = (Inr v1, h @ stepper_events ch False steps)"
    by (simp add: prod_eq_iff)
  with st(1,3) arr show ?thesis by blast
qed

text \<open>The history and the result of \<open>gate_map\<close> on arrays that have a first element.\<close>

lemma gate_map_run:
  fixes hw :: hardware and h :: history
  assumes x: "xarray = x0 # xs" and y: "yarray = y0 # ys"
  defines "tg \<equiv> volt_resp hw (h @ [Initialise_keithley]) Smua"
  defines "bg \<equiv> volt_resp hw (h @ [Initialise_keithley, Volt_get Smua tg]) Smub"
  shows "\<exists>tsteps bsteps call.
      generate_1D_sweep_array tg x0 (1/5) = Inr (map fst tsteps) \<and> tsteps \<noteq> []
    \<and> generate_1D_sweep_array bg y0 (1/5) = Inr (map fst bsteps) \<and> bsteps \<noteq> []
    \<and> call =
        \<lparr> param_set1 = Smua, xarray_arg = xarray, inner_delay_arg = inner_delay,
          param_set2 = Smub, yarray_arg = yarray, outer_delay_arg = outer_delay,
          param_meas = map Demod0_sample (discover_lockins st)
            @ [Triton_T8, Triton_Bz, Keithley_curr Smua, Keithley_curr Smub],
          exp_arg = expt,
          measurement_name = ''gate map '' @ format_label label,
          use_threads = True,
          measure_retrace_arg = measure_retrace \<rparr>
    \<and> gate_map hw xarray inner_delay yarray outer_delay st expt label measure_retrace h =
        (sweep2d_resp hw
           (h @ [Initialise_keithley, Volt_get Smua tg, Volt_get Smub bg]
              @ stepper_events Smua False tsteps @ stepper_events Smub False bsteps)
           call,
         h @ [Initialise_keithley, Volt_get Smua tg, Volt_get Smub bg]
           @ stepper_events Smua False tsteps @ stepper_events Smub False bsteps
           @ [Sweep2d call])"
proof -
  let ?h3 = "h @ [Initialise_keithley, Volt_get Smua tg, Volt_get Smub bg]"
  let ?d1 = "Some [Lit ''sweeping top gate to '', Num tg, Lit '' V'']"
  let ?d2 = "Some [Lit ''sweeping back gate to '', Num bg, Lit '' V'']"
  from go_to_unchecked[of tg x0 hw Smua ?d1 ?h3] obtain tsteps where
    tsteps: "generate_1D_sweep_array tg x0 (1/5) = Inr (map fst tsteps)" "tsteps \<noteq> []"
      "go_to hw tg x0 Smua ?d1 None ?h3 = (Inr x0, ?h3 @ stepper_events Smua False tsteps)"
    by blast
  let ?h4 = "?h3 @ stepper_events Smua False tsteps"
  from go_to_unchecked[of bg y0 hw Smub ?d2 ?h4] obtain bsteps where
    bsteps: "generate_1D_sweep_array bg y0 (1/5) = Inr (map fst bsteps)" "bsteps \<noteq> []"
      "go_to hw bg y0 Smub ?d2 None ?h4 = (Inr y0, ?h4 @ stepper_events Smub False bsteps)"
    by blast
  let ?call = "\<lparr> param_set1 = Smua, xarray_arg = xarray, inner_delay_arg = inner_delay,
          param_set2 = Smub, yarray_arg = yarray, outer_delay_arg = outer_delay,
          param_meas = map Demod0_sample (discover_lockins st)
            @ [Triton_T8, Triton_Bz, Keithley_curr Smua, Keithley_curr Smub],
          exp_arg = expt,
          measurement_name = ''gate map '' @ format_label label,
          use_threads = True,
          measure_retrace_arg = measure_retrace \<rparr>"
  have "gate_map hw xarray inner_delay yarray outer_delay st expt label measure_retrace h =
        (sweep2d_resp hw (?h4 @ stepper_events Smub False bsteps) ?call,
         (?h4 @ stepper_events Smub False bsteps) @ [Sweep2d ?call])"
    using tsteps(3) bsteps(3) x y
    by (simp add: gate_map_def initialise_keithley_def volt_get_def sweep2d_def Let_def
        tg_def bg_def)
  with tsteps(1,2) bsteps(1,2) show ?thesis
    by (intro exI[of _ tsteps] exI[of _ bsteps] exI[of _ ?call]) simp
qed

text \<open>The names the discovery loop collects.\<close>

lemma discover_loop_set:
  "set (discover_loop items acc) =
     set acc \<union> {name. \<exists>itm. (name, itm) \<in> set items \<and> isinstance itm Instrument
                    \<and> comp_class itm = MFLI}"
  by (induction items acc rule: discover_loop.induct) auto

lemma discover_lockins_set:
  "set (discover_lockins st) =
     {name. \<exists>itm. (name, itm) \<in> set (components st) \<and> isinstance itm Instrument
               \<and> comp_class itm = MFLI}"
  by (simp add: discover_lockins_def discover_loop_set)

lemma discover_lockins_member:
  assumes "distinct (map fst (components st))" and "(name, itm) \<in> set (components st)"
  shows "name \<in> set (discover_lockins st) \<longleftrightarrow> isinstance itm Instrument \<and> comp_class itm = MFLI"
proof -
  have uniq: "\<And>itm'. (name, itm') \<in> set (components st) \<Longrightarrow> itm' = itm"
    using assms by (meson eq_key_imp_eq_value)
  have "name \<in> set (discover_lockins st) \<longleftrightarrow>
      (\<exists>itm'. (name, itm') \<in> set (components st) \<and> isinstance itm' Instrument
          \<and> comp_class itm' = MFLI)"
    by (simp add: discover_lockins_set)
  also have "\<dots> \<longleftrightarrow> isinstance itm Instrument \<and> comp_class itm = MFLI"
    using assms(2) uniq by blast
  finally show ?thesis .
qed

text \<open>A gate map on the concrete stations, evaluated.\<close>

lemma sweep_array_0_fifth: "generate_1D_sweep_array 0 (1/5) (1/5) = Inr [0, 1/5]"
  by (simp add: generate_1D_sweep_array_def upt_rec)

lemma sweep_array_0_minus_fifth: "generate_1D_sweep_array 0 (- (1/5)) (1/5) = Inr [0, - (1/5)]"
  by (simp add: generate_1D_sweep_array_def upt_rec)

lemma discover_without_lockin: "discover_lockins station_without_lockin = []"
  by (simp add: discover_lockins_def station_without_lockin_def isinstance_def
      keithley_component_def triton_component_def parameter_component_def Instrument_def MFLI_def)

lemma discover_with_lockin: "discover_lockins station_with_lockin = [''mf1'']"
  by (simp add: discover_lockins_def station_with_lockin_def isinstance_def
      keithley_component_def triton_component_def parameter_component_def
      mfli_component_def derived_mfli_component_def Instrument_def MFLI_def)

lemma go_to_top_run:
  "go_to (reads_from_one 0) 0 (1/5) Smua d None h =
     (Inr (1/5), h @ [Sleep (1/2), Volt_set Smua 0, Curr_get Smua 0, Sleep (1/10),
        Volt_set Smua (1/5), Curr_get Smua 0, Sleep (1/10), Sleep (1/2)])"
  by (simp add: go_to_def sweep_array_0_fifth sleep_def volt_set_def curr_get_def Let_def
      reads_from_one_def)

lemma go_to_back_run:
  "go_to (reads_from_one 0) 0 (- (1/5)) Smub d None h =
     (Inr (- (1/5)), h @ [Sleep (1/2), Volt_set Smub 0, Curr_get Smub 0, Sleep (1/10),
        Volt_set Smub (- (1/5)), Curr_get Smub 0, Sleep (1/10), Sleep (1/2)])"
  by (simp add: go_to_def sweep_array_0_minus_fifth sleep_def volt_set_def curr_get_def Let_def
      reads_from_one_def)

lemma gate_map_without_lockin_run:
  "gate_map (reads_from_one 0) [1/5, 2/5] 0 [- (1/5)] 0 station_without_lockin None None
       (Some False) [] =
     (Inr 4,
      [Initialise_keithley, Volt_get Smua 0, Volt_get Smub 0,
       Sleep (1/2), Volt_set Smua 0, Curr_get Smua 0, Sleep (1/10),
       Volt_set Smua (1/5), Curr_get Smua 0, Sleep (1/10), Sleep (1/2),
       Sleep (1/2), Volt_set Smub 0, Curr_get Smub 0, Sleep (1/10),
       Volt_set Smub (- (1/5)), Curr_get Smub 0, Sleep (1/10), Sleep (1/2),
       Sweep2d \<lparr> param_set1 = Smua, xarray_arg = [1/5, 2/5], inner_delay_arg = 0,
          param_set2 = Smub, yarray_arg = [- (1/5)], outer_delay_arg = 0,
          param_meas = [Triton_T8, Triton_Bz, Keithley_curr Smua, Keithley_curr Smub],
          exp_arg = None, measurement_name = ''gate map None'',
          use_threads = True, measure_retrace_arg = Some False \<rparr>])"
proof -
  have v: "volt_resp (reads_from_one 0) = (\<lambda>h c. 0)"
    and s: "sweep2d_resp (reads_from_one 0) = (\<lambda>h call. Inr (length (param_meas call)))"
    by (simp_all add: reads_from_one_def)
  show ?thesis
    by (simp add: gate_map_def initialise_keithley_def volt_get_def sweep2d_def Let_def v s
        go_to_top_run go_to_back_run discover_without_lockin)
qed

text \<open>\<open>initialise_lockin\<close> writes to discovered lock-ins only.\<close>

lemma initialise_lockin_events:
  assumes "e \<in> set (snd (initialise_lockin st freq h))"
  shows "e \<in> set h \<or> (\<exists>l node v. e = Lockin_set l node v \<and> l \<in> set (discover_lockins st))
      \<or> (\<exists>fs. e = Print fs)"
proof (cases "discover_lockins st")
  case Nil
  with assms show ?thesis by (simp add: initialise_lockin_def)
next
  case (Cons l0 others)
  with assms have "e \<in> set h \<or> e \<in> set (reference_events l0 freq)
      \<or> (\<exists>l \<in> set others. e \<in> set (follower_events l))
      \<or> (\<exists>l \<in> set (l0 # others). e \<in> set (common_events l))
      \<or> (\<exists>fs. e = Print fs)"
    by (auto simp: initialise_lockin_def)
  then show ?thesis
    unfolding Cons
    by (auto simp: reference_events_def follower_events_def common_events_def)
qed

lemma gate_map_last_call:
  assumes "xarray \<noteq> []" and "yarray \<noteq> []"
  shows "\<exists>mid. writes Smua mid \<noteq> [] \<and> writes Smub mid \<noteq> [] \<and> Initialise_keithley \<in> set mid
    \<and> gate_map hw xarray inner_delay yarray outer_delay st expt label measure_retrace h =
        (sweep2d_resp hw (h @ mid)
           \<lparr> param_set1 = Smua, xarray_arg = xarray, inner_delay_arg = inner_delay,
             param_set2 = Smub, yarray_arg = yarray, outer_delay_arg = outer_delay,
             param_meas = map Demod0_sample (discover_lockins st)
               @ [Triton_T8, Triton_Bz, Keithley_curr Smua, Keithley_curr Smub],
             exp_arg = expt,
             measurement_name = ''gate map '' @ format_label label,
             use_threads = True,
             measure_retrace_arg = measure_retrace \<rparr>,
         (h @ mid) @ [Sweep2d
           \<lparr> param_set1 = Smua, xarray_arg = xarray, inner_delay_arg = inner_delay,
             param_set2 = Smub, yarray_arg = yarray, outer_delay_arg = outer_delay,
             param_meas = map Demod0_sample (discover_lockins st)
               @ [Triton_T8, Triton_Bz, Keithley_curr Smua, Keithley_curr Smub],
             exp_arg = expt,
             measurement_name = ''gate map '' @ format_label label,
             use_threads = True,
             measure_retrace_arg = measure_retrace \<rparr>])"
proof -
  from assms obtain x0 xs y0 ys where xy: "xarray = x0 # xs" "yarray = y0 # ys"
    by (meson list.exhaust)
  define tg where "tg = volt_resp hw (h @ [Initialise_keithley]) Smua"
  define bg where "bg = volt_resp hw (h @ [Initialise_keithley, Volt_get Smua tg]) Smub"
  let ?call = "\<lparr> param_set1 = Smua, xarray_arg = xarray, inner_delay_arg = inner_delay,
             param_set2 = Smub, yarray_arg = yarray, outer_delay_arg = outer_delay,
             param_meas = map Demod0_sample (discover_lockins st)
               @ [Triton_T8, Triton_Bz, Keithley_curr Smua, Keithley_curr Smub],
             exp_arg = expt,
             measurement_name = ''gate map '' @ format_label label,
             use_threads = True,
             measure_retrace_arg = measure_retrace \<rparr>"
  from gate_map_run[OF xy, of hw h inner_delay outer_delay st expt label measure_retrace]
  obtain tsteps bsteps where
    run: "tsteps \<noteq> []" "bsteps \<noteq> []"
      "gate_map hw xarray inner_delay yarray outer_delay st expt label measure_retrace h =
        (sweep2d_resp hw
           (h @ [Initialise_keithley, Volt_get Smua tg, Volt_get Smub bg]
              @ stepper_events Smua False tsteps @ stepper_events Smub False bsteps)
           ?call,
         h @ [Initialise_keithley, Volt_get Smua tg, Volt_get Smub bg]
           @ stepper_events Smua False tsteps @ stepper_events Smub False bsteps
           @ [Sweep2d ?call])"
    unfolding tg_def bg_def by blast
  let ?mid = "[Initialise_keithley, Volt_get Smua tg, Volt_get Smub bg]
      @ stepper_events Smua False tsteps @ stepper_events Smub False bsteps"
  have "writes Smua ?mid \<noteq> []"
    using run(1) by (simp add: writes_append writes_stepper_events)
  moreover have "writes Smub ?mid \<noteq> []"
    using run(2) by (simp add: writes_append writes_stepper_events)
  moreover have "Initialise_keithley \<in> set ?mid" by simp
  moreover have "gate_map hw xarray inner_delay yarray outer_delay st expt label measure_retrace h
      = (sweep2d_resp hw (h @ ?mid) ?call, (h @ ?mid) @ [Sweep2d ?call])"
    using run(3) by simp
  ultimately show ?thesis by (intro exI[of _ ?mid] conjI)
qed

section \<open>Properties of the plotting functions\<close>

text \<open>Indexing a list raises \<open>IndexError\<close> and nothing else, so the selection prints nothing.\<close>

lemma py_index_error: "py_index xs i = Inl e \<Longrightarrow> e = IndexError"
  by (simp add: py_index_def split: if_splits)

lemma select_component_output: "snd (select_component cpt ds out) = out"
proof -
  have "py_index ds 1 \<noteq> Inl ValueError"
    using py_index_error[of ds 1 ValueError] by auto
  then show ?thesis
    by (auto simp: select_component_def split: sum.splits)
qed

lemma select_component_second:
  assumes "cpt = ''imag'' \<or> cpt = ''phase''"
  shows "select_component cpt ds out =
    (if 1 < length ds then Inr [ds ! 1] else Inl IndexError, out)"
  using assms by (auto simp: select_component_def py_index_def)

lemma header_1D_not_message: "header_1D x var \<noteq> no_imaginary_part"
  by (simp add: header_1D_def no_imaginary_part_def)

lemma header_2D_not_message: "header_2D x y var \<noteq> no_imaginary_part"
  by (simp add: header_2D_def no_imaginary_part_def)

text \<open>All that the plotting functions print is their header line.\<close>

lemma plot_dataset_1D_output:
  "snd (plot_dataset_1D env ident var rescale_axes cpt cpp out) = out
   \<or> (\<exists>x. snd (plot_dataset_1D env ident var rescale_axes cpt cpp out) = out @ [header_1D x var])"
proof -
  have sel: "\<And>ds r out1. select_component cpt ds out = (r, out1) \<Longrightarrow> out1 = out"
    using select_component_output[of cpt _ out] by (metis snd_conv)
  show ?thesis
    unfolding plot_dataset_1D_def Let_def
    by (auto split: sum.splits prod.splits option.splits dest: sel)
qed

lemma plot_dataset_2D_output:
  "snd (plot_dataset_2D env ident var rescale_axes cpt cpp out) = out
   \<or> (\<exists>x y. snd (plot_dataset_2D env ident var rescale_axes cpt cpp out)
         = out @ [header_2D x y var])"
proof -
  have sel: "\<And>ds r out1. select_component cpt ds out = (r, out1) \<Longrightarrow> out1 = out"
    using select_component_output[of cpt _ out] by (metis snd_conv)
  show ?thesis
    unfolding plot_dataset_2D_def Let_def
    by (auto split: sum.splits prod.splits option.splits dest: sel)
qed

text \<open>The values of completed calls.\<close>

lemma plot_dataset_1D_result:
  "fst (plot_dataset_1D env ident var rescale_axes cpt cpp out) = Inr r \<Longrightarrow> r = No_result"
  unfolding plot_dataset_1D_def Let_def
  by (auto split: sum.splits prod.splits option.splits if_splits)

lemma py_zip_Inr: "py_zip ds axeslist = Inr pairs \<Longrightarrow> \<exists>as. axeslist = Axes_array as"
  by (cases axeslist) simp_all

lemma plot_dataset_2D_result:
  "fst (plot_dataset_2D env ident var rescale_axes cpt cpp out) = Inr r \<Longrightarrow>
     \<exists>as n. r = Axes_and_colorbars (Axes_array as) (replicate n None)"
  unfolding plot_dataset_2D_def Let_def
  by (auto split: sum.splits prod.splits option.splits if_splits dest: py_zip_Inr)

text \<open>Asking for the second component of a conversion that has one entry.\<close>

lemma plot_one_panel:
  assumes cpt: "cpt = ''imag'' \<or> cpt = ''phase''"
    and cpp: "cpp \<in> set valid_phases"
    and dat: "get_dataset env ident = Inr dat"
    and deps: "list_parameters env ident = Inr dependents"
    and var: "var \<in> set dependents"
    and pre: "preparsed env dat var (conversion_of cpt) (cpp = ''degrees'') = Inr [d]"
    and len: "2 \<le> length d"
  shows "plot_dataset_1D env ident var rescale_axes cpt cpp out = (Inl IndexError, out)"
    and "plot_dataset_2D env ident var rescale_axes cpt cpp out = (Inl IndexError, out)"
proof -
  have valid: "cpt \<in> set valid_types" using cpt by (auto simp: valid_types_def)
  have sel: "select_component cpt [d] out = (Inl IndexError, out)"
    using select_component_second[OF cpt, of "[d]" out] by simp
  have x: "param_name [d] 0 0 = Inr (d ! 0)" and y: "param_name [d] 0 1 = Inr (d ! 1)"
    using len by (auto simp: param_name_def py_index_def)
  show "plot_dataset_1D env ident var rescale_axes cpt cpp out = (Inl IndexError, out)"
    using valid cpp dat deps var pre x sel by (simp add: plot_dataset_1D_def)
  show "plot_dataset_2D env ident var rescale_axes cpt cpp out = (Inl IndexError, out)"
    using valid cpp dat deps var pre x y sel by (simp add: plot_dataset_2D_def)
qed

lemma plotting_env_fields:
  "get_dataset (plotting_env parts) i = Inr 1"
  "list_parameters (plotting_env parts) i = Inr [''R'']"
  "preparsed (plotting_env parts) dat var conv deg = Inr (replicate parts [''Vtg'', ''Vbg'', ''R''])"
  "subplots (plotting_env parts) n =
     (if n = 0 then Inl ValueError else if n = 1 then Inr (Axes 0) else Inr (Axes_array [0 ..< n]))"
  "draw_1D (plotting_env parts) d a r = None"
  "draw_2D (plotting_env parts) d a r = None"
  by (simp_all add: plotting_env_def)

lemma plots_complete:
  "\<exists>r. fst (plot_dataset_1D (plotting_env 2) (Inl 7) ''R'' True ''mag_and_phase'' ''degrees'' [])
        = Inr r"
  "\<exists>r. fst (plot_dataset_2D (plotting_env 2) (Inl 7) ''R'' True ''mag_and_phase'' ''degrees'' [])
        = Inr r"
  by (simp_all add: plot_dataset_1D_def plot_dataset_2D_def valid_types_def valid_phases_def
      conversion_of_def plotting_env_fields param_name_def py_index_def select_component_def
      numeral_2_eq_2 upt_rec body_1D_def body_2D_def Let_def)

section \<open>The claims of the specification\<close>

text \<open>
  Each claim is stated in words and then as one theorem; where a theorem has hypotheses,
  a second theorem applies it to a concrete run.
\<close>

subsection \<open>Stopping at the threshold\<close>

text \<open>
  Claim C1, as amended. The guard of the stepper is \<open>threshold and channel.curr() >
  threshold\<close>: it compares the signed current, read again after the inter-step delay,
  with the threshold, and takes no absolute value. For every call of \<open>_go_to\<close> with
  a threshold other than zero: if, after a setpoint \<open>x\<close> was written, that reading
  \<open>r2\<close> is greater than the threshold, then the only event that follows is the final
  settle delay (no further setpoint is written, nothing is rolled back), no exception is
  raised, and the call returns \<open>x\<close>. In particular, stepping from 0.0 to 2.0 with
  threshold 1.5 while the current reads 2.0 from the setpoint 1.0 onwards returns 1.0
  and writes the setpoints 0.0 to 1.0 only.
\<close>

theorem go_to_stops_above_threshold:
  "(\<forall>hw v0 v1 ch desc t h a x r1 r2 b.
      t \<noteq> 0
      \<and> snd (go_to hw v0 v1 ch desc (Some t) h) =
          h @ a @ [Volt_set ch x, Curr_get ch r1, Sleep (1/10), Curr_get ch r2] @ b
      \<and> t < r2
      \<longrightarrow> b = [Sleep (1/2)] \<and> fst (go_to hw v0 v1 ch desc (Some t) h) = Inr x)
   \<and> fst (go_to (reads_from_one 2) 0 2 Smua None (Some (3/2)) []) = Inr 1
   \<and> writes Smua (snd (go_to (reads_from_one 2) 0 2 Smua None (Some (3/2)) []))
       = [0, 1/5, 2/5, 3/5, 4/5, 1]"
proof (intro conjI allI impI)
  fix hw v0 v1 ch desc t h a x r1 r2 b
  assume hyp: "t \<noteq> 0
      \<and> snd (go_to hw v0 v1 ch desc (Some t) h) =
          h @ a @ [Volt_set ch x, Curr_get ch r1, Sleep (1/10), Curr_get ch r2] @ b
      \<and> t < r2"
  then have "b = [Sleep (1/2)] \<and> fst (go_to hw v0 v1 ch desc (Some t) h) = Inr x"
    by (intro go_to_abort_pattern[of t hw v0 v1 ch desc h a x r1 r2 b]) simp_all
  then show "b = [Sleep (1/2)]" and "fst (go_to hw v0 v1 ch desc (Some t) h) = Inr x"
    by simp_all
next
  show "fst (go_to (reads_from_one 2) 0 2 Smua None (Some (3/2)) []) = Inr 1"
    by (simp add: scenario_run)
next
  show "writes Smua (snd (go_to (reads_from_one 2) 0 2 Smua None (Some (3/2)) []))
       = [0, 1/5, 2/5, 3/5, 4/5, 1]"
    by (simp add: scenario_run)
qed

text \<open>
  The general part of C1 applied to the scenario: the hypotheses hold there, with the
  block of events at the setpoint 1.0 as the place where the reading passes the threshold.
\<close>

theorem go_to_stops_above_threshold_witness:
  "(3/2::real) \<noteq> 0
   \<and> snd (go_to (reads_from_one 2) 0 2 Smua None (Some (3/2)) []) =
       [] @ [Sleep (1/2),
             Volt_set Smua 0, Curr_get Smua 0, Sleep (1/10), Curr_get Smua 0,
             Volt_set Smua (1/5), Curr_get Smua 0, Sleep (1/10), Curr_get Smua 0,
             Volt_set Smua (2/5), Curr_get Smua 0, Sleep (1/10), Curr_get Smua 0,
             Volt_set Smua (3/5), Curr_get Smua 0, Sleep (1/10), Curr_get Smua 0,
             Volt_set Smua (4/5), Curr_get Smua 0, Sleep (1/10), Curr_get Smua 0]
          @ [Volt_set Smua 1, Curr_get Smua 2, Sleep (1/10), Curr_get Smua 2]
          @ [Sleep (1/2)]
   \<and> (3/2::real) < 2
   \<and> [Sleep (1/2)] = [Sleep (1/2)]
   \<and> fst (go_to (reads_from_one 2) 0 2 Smua None (Some (3/2)) []) = Inr 1"
proof -
  let ?a = "[Sleep (1/2),
             Volt_set Smua 0, Curr_get Smua 0, Sleep (1/10), Curr_get Smua 0,
             Volt_set Smua (1/5), Curr_get Smua 0, Sleep (1/10), Curr_get Smua 0,
             Volt_set Smua (2/5), Curr_get Smua 0, Sleep (1/10), Curr_get Smua 0,
             Volt_set Smua (3/5), Curr_get Smua 0, Sleep (1/10), Curr_get Smua 0,
             Volt_set Smua (4/5), Curr_get Smua 0, Sleep (1/10), Curr_get Smua 0]"
  have h1: "(3/2::real) \<noteq> 0" by simp
  have h2: "snd (go_to (reads_from_one 2) 0 2 Smua None (Some (3/2)) []) =
      [] @ ?a @ [Volt_set Smua 1, Curr_get Smua 2, Sleep (1/10), Curr_get Smua 2] @ [Sleep (1/2)]"
    by (simp add: scenario_run)
  have h3: "(3/2::real) < 2" by simp
  from go_to_stops_above_threshold
  have "3/2 \<noteq> (0::real)
      \<and> snd (go_to (reads_from_one 2) 0 2 Smua None (Some (3/2)) []) =
          [] @ ?a @ [Volt_set Smua 1, Curr_get Smua 2, Sleep (1/10), Curr_get Smua 2] @ [Sleep (1/2)]
      \<and> 3/2 < (2::real)
      \<longrightarrow> [Sleep (1/2)] = [Sleep (1/2)]
        \<and> fst (go_to (reads_from_one 2) 0 2 Smua None (Some (3/2)) []) = Inr 1"
    by blast
  with h1 h2 h3 show ?thesis by blast
qed

text \<open>
  Claim C1 as the specification words it speaks of the magnitude of the current. With a
  current of -2.0 from the setpoint 1.0 onwards the magnitude 2.0 exceeds the threshold
  1.5, yet the stepper goes on to write 1.2, 1.4, 1.6, 1.8 and 2.0 and returns 2.0.
\<close>

theorem go_to_magnitude_counterexample:
  "(3/2::real) < \<bar>- 2\<bar>
   \<and> go_to (reads_from_one (- 2)) 0 2 Smua None (Some (3/2)) [] =
     (Inr 2,
      [Sleep (1/2),
       Volt_set Smua 0, Curr_get Smua 0, Sleep (1/10), Curr_get Smua 0,
       Volt_set Smua (1/5), Curr_get Smua 0, Sleep (1/10), Curr_get Smua 0,
       Volt_set Smua (2/5), Curr_get Smua 0, Sleep (1/10), Curr_get Smua 0,
       Volt_set Smua (3/5), Curr_get Smua 0, Sleep (1/10), Curr_get Smua 0,
       Volt_set Smua (4/5), Curr_get Smua 0, Sleep (1/10), Curr_get Smua 0,
       Volt_set Smua 1, Curr_get Smua (- 2), Sleep (1/10), Curr_get Smua (- 2),
       Volt_set Smua (6/5), Curr_get Smua (- 2), Sleep (1/10), Curr_get Smua (- 2),
       Volt_set Smua (7/5), Curr_get Smua (- 2), Sleep (1/10), Curr_get Smua (- 2),
       Volt_set Smua (8/5), Curr_get Smua (- 2), Sleep (1/10), Curr_get Smua (- 2),
       Volt_set Smua (9/5), Curr_get Smua (- 2), Sleep (1/10), Curr_get Smua (- 2),
       Volt_set Smua 2, Curr_get Smua (- 2), Sleep (1/10), Curr_get Smua (- 2),
       Sleep (1/2)])"
  by (simp add: mirror_run)

subsection \<open>The value returned\<close>

text \<open>
  Claim C2. For every call of \<open>_go_to\<close>, whatever the threshold: the call returns a
  value and raises nothing; the value is the last setpoint written to the channel during
  the call and is an element of the generated sweep array; and when no threshold is given
  it is the requested target \<open>v1\<close>, which is then also the last value the channel
  was set to.
\<close>

theorem go_to_returns_last_written:
  assumes "go_to hw v0 v1 ch desc thr h = (res, h')"
  shows "\<exists>array new v. generate_1D_sweep_array v0 v1 (1/5) = Inr array
      \<and> h' = h @ new \<and> writes ch new \<noteq> [] \<and> res = Inr v
      \<and> v = last (writes ch new) \<and> v \<in> set array
      \<and> (thr = None \<longrightarrow> v = v1)"
proof -
  from go_to_shape[OF assms] obtain array steps rest where
    st: "generate_1D_sweep_array v0 v1 (1/5) = Inr array"
      "array = map fst steps @ rest" "steps \<noteq> []"
      "h' = h @ stepper_events ch (truthy thr) steps"
      "res = Inr (fst (last steps))"
      "rest \<noteq> [] \<longrightarrow> (\<exists>t. thr = Some t \<and> t \<noteq> 0 \<and> t < snd (snd (last steps)))"
    by blast
  let ?new = "stepper_events ch (truthy thr) steps"
  have w: "writes ch ?new = map fst steps" by (rule writes_stepper_events)
  have ne: "writes ch ?new \<noteq> []" using w st(3) by simp
  have lst: "fst (last steps) = last (writes ch ?new)" using w st(3) by (simp add: last_map)
  have mem: "fst (last steps) \<in> set array" using st(2,3) by simp
  have tgt: "thr = None \<longrightarrow> fst (last steps) = v1"
  proof
    assume "thr = None"
    with st(6) have "rest = []" by auto
    with st(2) have "array = map fst steps" by simp
    moreover from generate_step_fifth[of v0 v1] st(1) have "last array = v1" by simp
    ultimately show "fst (last steps) = v1" using st(3) by (simp add: last_map)
  qed
  show ?thesis
    using st(1) st(4) ne st(5) lst mem tgt by blast
qed

text \<open>
  C2 at a run from 0.0 to 1.0 without a threshold: the value returned is the target 1.0.
\<close>

theorem go_to_returns_last_written_witness:
  "\<exists>array new v. generate_1D_sweep_array 0 1 (1/5) = Inr array
      \<and> snd (go_to (reads_from_one 2) 0 1 Smua None None []) = [] @ new
      \<and> writes Smua new \<noteq> []
      \<and> fst (go_to (reads_from_one 2) 0 1 Smua None None []) = Inr v
      \<and> v = last (writes Smua new) \<and> v \<in> set array \<and> v = 1"
  using go_to_returns_last_written
      [OF surjective_pairing [of "go_to (reads_from_one 2) 0 1 Smua None None []"]]
  by simp

subsection \<open>The order of events\<close>

text \<open>
  Claim C5. Every call of \<open>_go_to\<close> adds to the history exactly the sequence
  \<open>stepper_events\<close>: the settle delay of 0.5 s; then, for the setpoints of the
  generated array in order, the write of the setpoint, a read of the current, the delay
  of 0.1 s and the threshold check (with a threshold in force the check reads the current
  once more, otherwise it leaves no event); then the settle delay again. The setpoints
  reached are a non-empty initial segment of the array, and the whole array unless the
  check of the last step found the reading above the threshold.
\<close>

theorem go_to_event_sequence:
  assumes "go_to hw v0 v1 ch desc thr h = (res, h')"
  shows "\<exists>array steps rest. generate_1D_sweep_array v0 v1 (1/5) = Inr array
      \<and> array = map fst steps @ rest \<and> steps \<noteq> []
      \<and> h' = h @ stepper_events ch (truthy thr) steps
      \<and> (rest \<noteq> [] \<longrightarrow> (\<exists>t. thr = Some t \<and> t \<noteq> 0 \<and> t < snd (snd (last steps))))"
  using go_to_shape[OF assms] by blast

text \<open>
  C5 at the scenario of section 8, where the loop is left at the setpoint 1.0: the six
  steps with the values read.
\<close>

theorem go_to_event_sequence_witness:
  "go_to (reads_from_one 2) 0 2 Smua None (Some (3/2)) [] =
     (Inr 1,
      [] @ stepper_events Smua True
        [(0, 0, 0), (1/5, 0, 0), (2/5, 0, 0), (3/5, 0, 0), (4/5, 0, 0), (1, 2, 2)])
   \<and> (\<exists>array steps rest. generate_1D_sweep_array 0 2 (1/5) = Inr array
      \<and> array = map fst steps @ rest \<and> steps \<noteq> []
      \<and> [] @ stepper_events Smua True
            [(0, 0, 0), (1/5, 0, 0), (2/5, 0, 0), (3/5, 0, 0), (4/5, 0, 0), (1, 2, 2)]
          = [] @ stepper_events Smua (truthy (Some (3/2))) steps
      \<and> (rest \<noteq> [] \<longrightarrow>
           (\<exists>t. Some (3/2) = Some t \<and> t \<noteq> 0 \<and> t < snd (snd (last steps)))))"
proof -
  have run: "go_to (reads_from_one 2) 0 2 Smua None (Some (3/2)) [] =
     (Inr 1,
      [] @ stepper_events Smua True
        [(0, 0, 0), (1/5, 0, 0), (2/5, 0, 0), (3/5, 0, 0), (4/5, 0, 0), (1, 2, 2)])"
    by (simp add: scenario_run stepper_events_def)
  from run go_to_event_sequence[OF run] show ?thesis by (rule conjI)
qed

subsection \<open>A threshold of zero\<close>

text \<open>
  Claim C8. With \<open>threshold = 0.0\<close> the guard \<open>threshold and ...\<close> is false
  before the comparison is reached: whatever the instrument reads, the events are those
  of an unchecked run (one read of the current per step), every element of the sweep
  array is written in order, and the call returns the target.
\<close>

theorem go_to_zero_threshold_never_checks:
  "\<exists>array steps. generate_1D_sweep_array v0 v1 (1/5) = Inr array
      \<and> map fst steps = array
      \<and> snd (go_to hw v0 v1 ch desc (Some 0) h) = h @ stepper_events ch False steps
      \<and> writes ch (stepper_events ch False steps) = array
      \<and> fst (go_to hw v0 v1 ch desc (Some 0) h) = Inr v1"
proof -
  from go_to_shape[OF surjective_pairing [of "go_to hw v0 v1 ch desc (Some 0) h"]]
  obtain array steps rest where
    st: "generate_1D_sweep_array v0 v1 (1/5) = Inr array"
      "array = map fst steps @ rest" "steps \<noteq> []"
      "snd (go_to hw v0 v1 ch desc (Some 0) h) = h @ stepper_events ch (truthy (Some 0)) steps"
      "fst (go_to hw v0 v1 ch desc (Some 0) h) = Inr (fst (last steps))"
      "rest \<noteq> [] \<longrightarrow> (\<exists>t. Some (0::real) = Some t \<and> t \<noteq> 0 \<and> t < snd (snd (last steps)))"
    by blast
  from st(6) have rest: "rest = []" by auto
  with st(2) have arr: "map fst steps = array" by simp
  from generate_step_fifth[of v0 v1] st(1) have "last array = v1" by simp
  with arr st(3) have "fst (last steps) = v1" by (auto simp: last_map)
  with st(1,4,5) arr show ?thesis
    by (intro exI[of _ array] exI[of _ steps]) (simp add: writes_stepper_events)
qed

text \<open>
  C8 on the instrument of the scenario: the current reads 2.0 from the setpoint 1.0
  onwards, above a threshold of zero, and all eleven setpoints are written.
\<close>

theorem go_to_zero_threshold_never_checks_witness:
  "writes Smua (snd (go_to (reads_from_one 2) 0 2 Smua None (Some 0) []))
     = [0, 1/5, 2/5, 3/5, 4/5, 1, 6/5, 7/5, 8/5, 9/5, 2]
   \<and> fst (go_to (reads_from_one 2) 0 2 Smua None (Some 0) []) = Inr 2"
  using go_to_zero_threshold_never_checks[of 0 2 "reads_from_one 2" Smua None "[]"]
  by (auto simp: sweep_array_0_2)

subsection \<open>The order of the steps of a gate map\<close>

text \<open>
  Claim C3. Every call of \<open>gate_map\<close> with non-empty arrays (their first elements
  are the places to go to) adds to the history, in this order: the initialisation of the
  source-measure unit; the reads of the two resting gate voltages \<open>tg\<close> and
  \<open>bg\<close>; the events of a position stepper on \<open>smua\<close> whose setpoints are the
  sweep array from \<open>tg\<close> to \<open>xarray[0]\<close>; the events of a position stepper on
  \<open>smub\<close> from \<open>bg\<close> to \<open>yarray[0]\<close>; and the call of \<open>sweep2d\<close>. What
  \<open>gate_map\<close> returns is what that call returned, unchanged.
\<close>

theorem gate_map_order:
  assumes "xarray = x0 # xs" and "yarray = y0 # ys"
  shows "\<exists>tg bg tsteps bsteps call.
      snd (gate_map hw xarray inner_delay yarray outer_delay st expt label measure_retrace h) =
        h @ [Initialise_keithley, Volt_get Smua tg, Volt_get Smub bg]
          @ stepper_events Smua False tsteps @ stepper_events Smub False bsteps
          @ [Sweep2d call]
    \<and> generate_1D_sweep_array tg x0 (1/5) = Inr (map fst tsteps)
    \<and> generate_1D_sweep_array bg y0 (1/5) = Inr (map fst bsteps)
    \<and> last (map fst tsteps) = x0 \<and> last (map fst bsteps) = y0
    \<and> fst (gate_map hw xarray inner_delay yarray outer_delay st expt label measure_retrace h) =
        sweep2d_resp hw
          (h @ [Initialise_keithley, Volt_get Smua tg, Volt_get Smub bg]
             @ stepper_events Smua False tsteps @ stepper_events Smub False bsteps)
          call"
proof -
  define tg where "tg = volt_resp hw (h @ [Initialise_keithley]) Smua"
  define bg where "bg = volt_resp hw (h @ [Initialise_keithley, Volt_get Smua tg]) Smub"
  from gate_map_run[OF assms, of hw h inner_delay outer_delay st expt label measure_retrace]
  obtain tsteps bsteps call where
    run: "generate_1D_sweep_array tg x0 (1/5) = Inr (map fst tsteps)"
      "generate_1D_sweep_array bg y0 (1/5) = Inr (map fst bsteps)"
      "gate_map hw xarray inner_delay yarray outer_delay st expt label measure_retrace h =
        (sweep2d_resp hw
           (h @ [Initialise_keithley, Volt_get Smua tg, Volt_get Smub bg]
              @ stepper_events Smua False tsteps @ stepper_events Smub False bsteps)
           call,
         h @ [Initialise_keithley, Volt_get Smua tg, Volt_get Smub bg]
           @ stepper_events Smua False tsteps @ stepper_events Smub False bsteps
           @ [Sweep2d call])"
    unfolding tg_def bg_def by blast
  from generate_step_fifth[of tg x0] run(1) have lt: "last (map fst tsteps) = x0" by simp
  from generate_step_fifth[of bg y0] run(2) have lb: "last (map fst bsteps) = y0" by simp
  show ?thesis
    using run lt lb
    by (intro exI[of _ tg] exI[of _ bg] exI[of _ tsteps] exI[of _ bsteps] exI[of _ call]) simp
qed

text \<open>
  C3 on the station without lock-ins, both gates resting at 0: the top gate steps to 0.2,
  the back gate to -0.2, and the handle of the sweep comes back.
\<close>

theorem gate_map_order_witness:
  "[1/5, 2/5] = 1/5 # [2/5::real] \<and> [- (1/5)] = - (1/5) # ([]::real list)
   \<and> (\<exists>tg bg tsteps bsteps call.
      snd (gate_map (reads_from_one 0) [1/5, 2/5] 0 [- (1/5)] 0 station_without_lockin None None
             (Some False) []) =
        [] @ [Initialise_keithley, Volt_get Smua tg, Volt_get Smub bg]
          @ stepper_events Smua False tsteps @ stepper_events Smub False bsteps
          @ [Sweep2d call]
    \<and> generate_1D_sweep_array tg (1/5) (1/5) = Inr (map fst tsteps)
    \<and> generate_1D_sweep_array bg (- (1/5)) (1/5) = Inr (map fst bsteps)
    \<and> last (map fst tsteps) = 1/5 \<and> last (map fst bsteps) = - (1/5)
    \<and> fst (gate_map (reads_from_one 0) [1/5, 2/5] 0 [- (1/5)] 0 station_without_lockin None None
             (Some False) []) =
        sweep2d_resp (reads_from_one 0)
          ([] @ [Initialise_keithley, Volt_get Smua tg, Volt_get Smub bg]
             @ stepper_events Smua False tsteps @ stepper_events Smub False bsteps)
          call)
   \<and> snd (gate_map (reads_from_one 0) [1/5, 2/5] 0 [- (1/5)] 0 station_without_lockin None None
             (Some False) []) =
        [Initialise_keithley, Volt_get Smua 0, Volt_get Smub 0]
          @ stepper_events Smua False [(0, 0, 0), (1/5, 0, 0)]
          @ stepper_events Smub False [(0, 0, 0), (- (1/5), 0, 0)]
          @ [Sweep2d \<lparr> param_set1 = Smua, xarray_arg = [1/5, 2/5], inner_delay_arg = 0,
               param_set2 = Smub, yarray_arg = [- (1/5)], outer_delay_arg = 0,
               param_meas = [Triton_T8, Triton_Bz, Keithley_curr Smua, Keithley_curr Smub],
               exp_arg = None, measurement_name = ''gate map None'',
               use_threads = True, measure_retrace_arg = Some False \<rparr>]
   \<and> fst (gate_map (reads_from_one 0) [1/5, 2/5] 0 [- (1/5)] 0 station_without_lockin None None
             (Some False) []) = Inr 4"
proof -
  have h1: "[1/5, 2/5] = 1/5 # [2/5::real]" and h2: "[- (1/5)] = - (1/5) # ([]::real list)"
    by simp_all
  note inst = gate_map_order[OF h1 h2, of "reads_from_one 0" 0 0 station_without_lockin None None
      "Some False" "[]"]
  have tr: "snd (gate_map (reads_from_one 0) [1/5, 2/5] 0 [- (1/5)] 0 station_without_lockin
             None None (Some False) []) =
        [Initialise_keithley, Volt_get Smua 0, Volt_get Smub 0]
          @ stepper_events Smua False [(0, 0, 0), (1/5, 0, 0)]
          @ stepper_events Smub False [(0, 0, 0), (- (1/5), 0, 0)]
          @ [Sweep2d \<lparr> param_set1 = Smua, xarray_arg = [1/5, 2/5], inner_delay_arg = 0,
               param_set2 = Smub, yarray_arg = [- (1/5)], outer_delay_arg = 0,
               param_meas = [Triton_T8, Triton_Bz, Keithley_curr Smua, Keithley_curr Smub],
               exp_arg = None, measurement_name = ''gate map None'',
               use_threads = True, measure_retrace_arg = Some False \<rparr>]"
    and res: "fst (gate_map (reads_from_one 0) [1/5, 2/5] 0 [- (1/5)] 0 station_without_lockin
             None None (Some False) []) = Inr 4"
    by (simp_all add: gate_map_without_lockin_run stepper_events_def)
  from h1 h2 inst tr res show ?thesis by (intro conjI)
qed

subsection \<open>The observables handed to the sweep\<close>

text \<open>
  Claim C4. In every call of \<open>gate_map\<close> with non-empty arrays the last event is the
  call of \<open>sweep2d\<close>, and the parameters it is asked to measure are exactly: the
  sample of the first demodulator of each discovered lock-in (the components that are
  instruments of class MFLI), in order of discovery, then the Triton's \<open>T8\<close> and
  \<open>Bz\<close> and the currents of \<open>smua\<close> and \<open>smub\<close>. The call asks for
  threaded reads, and passes on the retrace flag, the experiment and the label (inside
  the measurement name), together with both setters, arrays and delays.
\<close>

theorem gate_map_observables:
  assumes "xarray \<noteq> []" and "yarray \<noteq> []"
  shows "\<exists>before call.
      snd (gate_map hw xarray inner_delay yarray outer_delay st expt label measure_retrace h) =
        before @ [Sweep2d call]
    \<and> param_meas call = map Demod0_sample (discover_lockins st)
        @ [Triton_T8, Triton_Bz, Keithley_curr Smua, Keithley_curr Smub]
    \<and> set (discover_lockins st) =
        {name. \<exists>itm. (name, itm) \<in> set (components st) \<and> isinstance itm Instrument
                  \<and> comp_class itm = MFLI}
    \<and> use_threads call = True
    \<and> measure_retrace_arg call = measure_retrace
    \<and> exp_arg call = expt
    \<and> measurement_name call = ''gate map '' @ format_label label
    \<and> param_set1 call = Smua \<and> xarray_arg call = xarray \<and> inner_delay_arg call = inner_delay
    \<and> param_set2 call = Smub \<and> yarray_arg call = yarray \<and> outer_delay_arg call = outer_delay"
proof -
  from assms obtain x0 xs y0 ys where xy: "xarray = x0 # xs" "yarray = y0 # ys"
    by (meson list.exhaust)
  from gate_map_run[OF xy, of hw h inner_delay outer_delay st expt label measure_retrace]
  obtain before call where
    run: "call =
        \<lparr> param_set1 = Smua, xarray_arg = xarray, inner_delay_arg = inner_delay,
          param_set2 = Smub, yarray_arg = yarray, outer_delay_arg = outer_delay,
          param_meas = map Demod0_sample (discover_lockins st)
            @ [Triton_T8, Triton_Bz, Keithley_curr Smua, Keithley_curr Smub],
          exp_arg = expt,
          measurement_name = ''gate map '' @ format_label label,
          use_threads = True,
          measure_retrace_arg = measure_retrace \<rparr>"
      "gate_map hw xarray inner_delay yarray outer_delay st expt label measure_retrace h =
        (sweep2d_resp hw before call, before @ [Sweep2d call])"
    by (metis (no_types, lifting) append.assoc)
  show ?thesis
    using run discover_lockins_set[of st]
    by (intro exI[of _ before] exI[of _ call]) simp
qed

text \<open>C4 on the station with one MFLI lock-in and one instrument derived from it.\<close>

theorem gate_map_observables_witness:
  "\<exists>before call.
      snd (gate_map (reads_from_one 0) [1/5, 2/5] 0 [- (1/5)] 0 station_with_lockin (Some 3)
             (Some ''run'') (Some True) []) = before @ [Sweep2d call]
    \<and> param_meas call =
        [Demod0_sample ''mf1'', Triton_T8, Triton_Bz, Keithley_curr Smua, Keithley_curr Smub]
    \<and> use_threads call = True
    \<and> measure_retrace_arg call = Some True
    \<and> exp_arg call = Some 3
    \<and> measurement_name call = ''gate map run''"
proof -
  have ne: "[1/5, 2/5] \<noteq> ([]::real list)" "[- (1/5)] \<noteq> ([]::real list)" by simp_all
  from gate_map_observables[OF ne, of "reads_from_one 0" 0 0 station_with_lockin "Some 3"
      "Some ''run''" "Some True" "[]"]
  obtain before call where
    c: "snd (gate_map (reads_from_one 0) [1/5, 2/5] 0 [- (1/5)] 0 station_with_lockin (Some 3)
             (Some ''run'') (Some True) []) = before @ [Sweep2d call]"
      "param_meas call = map Demod0_sample (discover_lockins station_with_lockin)
        @ [Triton_T8, Triton_Bz, Keithley_curr Smua, Keithley_curr Smub]"
      "use_threads call = True"
      "measure_retrace_arg call = Some True"
      "exp_arg call = Some 3"
      "measurement_name call = ''gate map '' @ format_label (Some ''run'')"
    by blast
  show ?thesis
    using c by (intro exI[of _ before] exI[of _ call]) (simp add: discover_with_lockin)
qed

subsection \<open>Discovery by exact class\<close>

text \<open>
  Claim C9. Let a component \<open>itm\<close> be attached to the station under \<open>name\<close> (the
  names are the keys of a dictionary, so they are distinct). It is discovered as a
  lock-in exactly when it is an instrument and its class is MFLI itself. So a component
  whose class only derives from MFLI, or is any other driver, or is not an instrument,
  is not discovered. This holds for the discovery in \<open>gate_map\<close>, where the sample
  of the component is among the observables of the sweep exactly in that case, and for
  the discovery in \<open>initialise_lockin\<close>, which writes a node of the component only
  in that case.
\<close>

theorem lockin_discovery_by_exact_class:
  assumes "distinct (map fst (components st))" and "(name, itm) \<in> set (components st)"
  shows "(name \<in> set (discover_lockins st)
            \<longleftrightarrow> isinstance itm Instrument \<and> comp_class itm = MFLI)
    \<and> (\<forall>before call. xarray \<noteq> [] \<and> yarray \<noteq> []
          \<and> snd (gate_map hw xarray inner_delay yarray outer_delay st expt label
                   measure_retrace h) = before @ [Sweep2d call]
          \<longrightarrow> (Demod0_sample name \<in> set (param_meas call)
                 \<longleftrightarrow> isinstance itm Instrument \<and> comp_class itm = MFLI))
    \<and> (\<forall>node v. Lockin_set name node v \<in> set (snd (initialise_lockin st freq h'))
          \<longrightarrow> Lockin_set name node v \<in> set h'
              \<or> (isinstance itm Instrument \<and> comp_class itm = MFLI))"
proof (intro conjI allI impI)
  show mem: "name \<in> set (discover_lockins st)
      \<longleftrightarrow> isinstance itm Instrument \<and> comp_class itm = MFLI"
    by (rule discover_lockins_member[OF assms])
  {
    fix before call
    assume a: "xarray \<noteq> [] \<and> yarray \<noteq> []
          \<and> snd (gate_map hw xarray inner_delay yarray outer_delay st expt label
                   measure_retrace h) = before @ [Sweep2d call]"
    from gate_map_last_call[of xarray yarray hw inner_delay outer_delay st expt label
        measure_retrace h] a
    have "param_meas call = map Demod0_sample (discover_lockins st)
        @ [Triton_T8, Triton_Bz, Keithley_curr Smua, Keithley_curr Smub]"
      by auto
    then have "Demod0_sample name \<in> set (param_meas call) \<longleftrightarrow> name \<in> set (discover_lockins st)"
      by auto
    with mem show "Demod0_sample name \<in> set (param_meas call)
        \<longleftrightarrow> isinstance itm Instrument \<and> comp_class itm = MFLI"
      by simp
  }
  {
    fix node v
    assume "Lockin_set name node v \<in> set (snd (initialise_lockin st freq h'))"
    from initialise_lockin_events[OF this] mem
    show "Lockin_set name node v \<in> set h' \<or> (isinstance itm Instrument \<and> comp_class itm = MFLI)"
      by auto
  }
qed


text \<open>
  C9 at the component \<open>mf2\<close>, an instrument whose class derives from MFLI: it passes
  both \<open>isinstance\<close> tests and is not discovered.
\<close>

theorem lockin_discovery_by_exact_class_witness:
  "distinct (map fst (components station_with_lockin))
   \<and> (''mf2'', derived_mfli_component) \<in> set (components station_with_lockin)
   \<and> isinstance derived_mfli_component Instrument
   \<and> isinstance derived_mfli_component MFLI
   \<and> comp_class derived_mfli_component \<noteq> MFLI
   \<and> ''mf2'' \<notin> set (discover_lockins station_with_lockin)"
proof -
  have h1: "distinct (map fst (components station_with_lockin))"
    by (simp add: station_with_lockin_def)
  have h2: "(''mf2'', derived_mfli_component) \<in> set (components station_with_lockin)"
    by (simp add: station_with_lockin_def)
  have i1: "isinstance derived_mfli_component Instrument"
    and i2: "isinstance derived_mfli_component MFLI"
    and c: "comp_class derived_mfli_component \<noteq> MFLI"
    by (simp_all add: isinstance_def derived_mfli_component_def MFLI_def Instrument_def)
  from lockin_discovery_by_exact_class[OF h1 h2]
  have "''mf2'' \<in> set (discover_lockins station_with_lockin)
      \<longleftrightarrow> isinstance derived_mfli_component Instrument
          \<and> comp_class derived_mfli_component = MFLI"
    by (rule conjunct1)
  with c have "''mf2'' \<notin> set (discover_lockins station_with_lockin)" by simp
  with h1 h2 i1 i2 c show ?thesis by (intro conjI)
qed

subsection \<open>A station without lock-ins\<close>

text \<open>
  Claim C6, as amended. The code has no configuration error. When no lock-in is
  discovered, \<open>initialise_lockin\<close>, which needs one, raises \<open>IndexError\<close> at
  \<open>lockins[0]\<close> before it writes anything: the history is unchanged when the error
  reaches the caller. \<open>gate_map\<close> does not look at the number of lock-ins: with
  non-empty arrays it initialises the source-measure unit, writes setpoints to both
  gates, and calls \<open>sweep2d\<close> with the four fixed observables only, returning what
  that call returns.
\<close>

theorem no_lockin_discovered:
  assumes "discover_lockins st = []"
  shows "initialise_lockin st freq h = (Inl IndexError, h)
    \<and> (xarray \<noteq> [] \<and> yarray \<noteq> [] \<longrightarrow>
         (\<exists>mid call.
            gate_map hw xarray inner_delay yarray outer_delay st expt label measure_retrace h' =
              (sweep2d_resp hw (h' @ mid) call, h' @ mid @ [Sweep2d call])
          \<and> Initialise_keithley \<in> set mid
          \<and> writes Smua mid \<noteq> [] \<and> writes Smub mid \<noteq> []
          \<and> param_meas call = [Triton_T8, Triton_Bz, Keithley_curr Smua, Keithley_curr Smub]))"
proof (intro conjI impI)
  show "initialise_lockin st freq h = (Inl IndexError, h)"
    using assms by (simp add: initialise_lockin_def)
next
  assume "xarray \<noteq> [] \<and> yarray \<noteq> []"
  then have ne: "xarray \<noteq> []" "yarray \<noteq> []" by simp_all
  let ?call = "\<lparr> param_set1 = Smua, xarray_arg = xarray, inner_delay_arg = inner_delay,
             param_set2 = Smub, yarray_arg = yarray, outer_delay_arg = outer_delay,
             param_meas = map Demod0_sample (discover_lockins st)
               @ [Triton_T8, Triton_Bz, Keithley_curr Smua, Keithley_curr Smub],
             exp_arg = expt,
             measurement_name = ''gate map '' @ format_label label,
             use_threads = True,
             measure_retrace_arg = measure_retrace \<rparr>"
  from gate_map_last_call[OF ne, of hw inner_delay outer_delay st expt label measure_retrace h']
  obtain mid where
    m: "writes Smua mid \<noteq> []" "writes Smub mid \<noteq> []" "Initialise_keithley \<in> set mid"
      "gate_map hw xarray inner_delay yarray outer_delay st expt label measure_retrace h' =
        (sweep2d_resp hw (h' @ mid) ?call, (h' @ mid) @ [Sweep2d ?call])"
    by blast
  have "param_meas ?call = [Triton_T8, Triton_Bz, Keithley_curr Smua, Keithley_curr Smub]"
    using assms by simp
  with m show "\<exists>mid call.
            gate_map hw xarray inner_delay yarray outer_delay st expt label measure_retrace h' =
              (sweep2d_resp hw (h' @ mid) call, h' @ mid @ [Sweep2d call])
          \<and> Initialise_keithley \<in> set mid
          \<and> writes Smua mid \<noteq> [] \<and> writes Smub mid \<noteq> []
          \<and> param_meas call = [Triton_T8, Triton_Bz, Keithley_curr Smua, Keithley_curr Smub]"
    by (intro exI[of _ mid] exI[of _ ?call]) simp
qed

text \<open>C6 as amended, on the station that carries the Keithley and the Triton only.\<close>

theorem no_lockin_discovered_witness:
  "discover_lockins station_without_lockin = []
   \<and> initialise_lockin station_without_lockin 127 [] = (Inl IndexError, [])
   \<and> [1/5, 2/5] \<noteq> ([]::real list) \<and> [- (1/5)] \<noteq> ([]::real list)
   \<and> (\<exists>mid call.
         gate_map (reads_from_one 0) [1/5, 2/5] 0 [- (1/5)] 0 station_without_lockin None None
             (Some False) [] =
           (sweep2d_resp (reads_from_one 0) ([] @ mid) call, [] @ mid @ [Sweep2d call])
       \<and> Initialise_keithley \<in> set mid
       \<and> writes Smua mid \<noteq> [] \<and> writes Smub mid \<noteq> []
       \<and> param_meas call = [Triton_T8, Triton_Bz, Keithley_curr Smua, Keithley_curr Smub])"
proof -
  have ne: "[1/5, 2/5] \<noteq> ([]::real list) \<and> [- (1/5)] \<noteq> ([]::real list)" by simp
  note inst = no_lockin_discovered[OF discover_without_lockin,
      of 127 "[]" "[1/5, 2/5]" "[- (1/5)]" "reads_from_one 0" 0 0 None None "Some False" "[]"]
  from inst have a: "initialise_lockin station_without_lockin 127 [] = (Inl IndexError, [])"
    by (rule conjunct1)
  from inst[THEN conjunct2, rule_format, OF ne]
  have b: "\<exists>mid call.
         gate_map (reads_from_one 0) [1/5, 2/5] 0 [- (1/5)] 0 station_without_lockin None None
             (Some False) [] =
           (sweep2d_resp (reads_from_one 0) ([] @ mid) call, [] @ mid @ [Sweep2d call])
       \<and> Initialise_keithley \<in> set mid
       \<and> writes Smua mid \<noteq> [] \<and> writes Smub mid \<noteq> []
       \<and> param_meas call = [Triton_T8, Triton_Bz, Keithley_curr Smua, Keithley_curr Smub]" .
  from discover_without_lockin a ne b show ?thesis by (intro conjI) simp_all
qed

text \<open>
  Claim C6 as the specification words it expects an error before any hardware motion.
  On the station without lock-ins \<open>gate_map\<close> raises nothing: it moves the top gate
  to 0.2 and the back gate to -0.2 and returns the handle of the sweep.
\<close>

theorem gate_map_no_configuration_error:
  "discover_lockins station_without_lockin = []
   \<and> gate_map (reads_from_one 0) [1/5, 2/5] 0 [- (1/5)] 0 station_without_lockin None None
       (Some False) [] =
     (Inr 4,
      [Initialise_keithley, Volt_get Smua 0, Volt_get Smub 0,
       Sleep (1/2), Volt_set Smua 0, Curr_get Smua 0, Sleep (1/10),
       Volt_set Smua (1/5), Curr_get Smua 0, Sleep (1/10), Sleep (1/2),
       Sleep (1/2), Volt_set Smub 0, Curr_get Smub 0, Sleep (1/10),
       Volt_set Smub (- (1/5)), Curr_get Smub 0, Sleep (1/10), Sleep (1/2),
       Sweep2d \<lparr> param_set1 = Smua, xarray_arg = [1/5, 2/5], inner_delay_arg = 0,
          param_set2 = Smub, yarray_arg = [- (1/5)], outer_delay_arg = 0,
          param_meas = [Triton_T8, Triton_Bz, Keithley_curr Smua, Keithley_curr Smub],
          exp_arg = None, measurement_name = ''gate map None'',
          use_threads = True, measure_retrace_arg = Some False \<rparr>])"
  using discover_without_lockin gate_map_without_lockin_run by (rule conjI)

subsection \<open>The handler for a missing second component\<close>

text \<open>
  Claim C7. In \<open>plot_dataset_1D\<close> and \<open>plot_dataset_2D\<close> with the plot type
  \<open>imag\<close> or \<open>phase\<close>, the selection \<open>dataset[1]\<close> stands in a
  \<open>try\<close> whose handler takes \<open>ValueError\<close>. When the converted dataset has
  one entry only (no imaginary part, no phase), the selection raises \<open>IndexError\<close>,
  which the handler does not take: both functions end with that \<open>IndexError\<close> and
  have printed nothing. And the branch of the message is never reached at all: whatever
  the arguments and the collaborators (the primed variables), neither function prints
  \<open>the dataset had no imaginary part\<close>.
\<close>

theorem no_imaginary_part_handler_unreachable:
  assumes "complex_plot_type = ''imag'' \<or> complex_plot_type = ''phase''"
    and "complex_plot_phase \<in> set valid_phases"
    and "get_dataset env ident = Inr dat"
    and "list_parameters env ident = Inr dependents"
    and "var \<in> set dependents"
    and "preparsed env dat var (conversion_of complex_plot_type)
           (complex_plot_phase = ''degrees'') = Inr [d]"
    and "2 \<le> length d"
    and "no_imaginary_part \<notin> set out'"
  shows "plot_dataset_1D env ident var rescale_axes complex_plot_type complex_plot_phase out
           = (Inl IndexError, out)
    \<and> plot_dataset_2D env ident var rescale_axes complex_plot_type complex_plot_phase out
           = (Inl IndexError, out)
    \<and> no_imaginary_part \<notin> set (snd (plot_dataset_1D env' ident' var' rescale_axes'
           complex_plot_type' complex_plot_phase' out'))
    \<and> no_imaginary_part \<notin> set (snd (plot_dataset_2D env' ident' var' rescale_axes'
           complex_plot_type' complex_plot_phase' out'))"
proof (intro conjI)
  show "plot_dataset_1D env ident var rescale_axes complex_plot_type complex_plot_phase out
           = (Inl IndexError, out)"
    by (rule plot_one_panel(1)[OF assms(1-7)])
  show "plot_dataset_2D env ident var rescale_axes complex_plot_type complex_plot_phase out
           = (Inl IndexError, out)"
    by (rule plot_one_panel(2)[OF assms(1-7)])
  show "no_imaginary_part \<notin> set (snd (plot_dataset_1D env' ident' var' rescale_axes'
           complex_plot_type' complex_plot_phase' out'))"
    using plot_dataset_1D_output[of env' ident' var' rescale_axes' complex_plot_type'
        complex_plot_phase' out'] assms(8) header_1D_not_message[symmetric]
    by auto
  show "no_imaginary_part \<notin> set (snd (plot_dataset_2D env' ident' var' rescale_axes'
           complex_plot_type' complex_plot_phase' out'))"
    using plot_dataset_2D_output[of env' ident' var' rescale_axes' complex_plot_type'
        complex_plot_phase' out'] assms(8) header_2D_not_message[symmetric]
    by auto
qed

text \<open>C7 on a real-valued run, whose conversion has one entry, plotted as \<open>imag\<close>.\<close>

theorem no_imaginary_part_handler_unreachable_witness:
  "plot_dataset_1D (plotting_env 1) (Inl 7) ''R'' True ''imag'' ''degrees'' []
       = (Inl IndexError, [])
   \<and> plot_dataset_2D (plotting_env 1) (Inl 7) ''R'' True ''imag'' ''degrees'' []
       = (Inl IndexError, [])
   \<and> no_imaginary_part \<notin> set (snd (plot_dataset_1D (plotting_env 1) (Inl 7) ''R'' True
         ''imag'' ''degrees'' []))
   \<and> no_imaginary_part \<notin> set (snd (plot_dataset_2D (plotting_env 1) (Inl 7) ''R'' True
         ''imag'' ''degrees'' []))"
proof -
  have h1: "''imag'' = ''imag'' \<or> ''imag'' = ''phase''" by simp
  have h2: "''degrees'' \<in> set valid_phases" by (simp add: valid_phases_def)
  have h3: "get_dataset (plotting_env 1) (Inl 7) = Inr 1" by (simp add: plotting_env_fields)
  have h4: "list_parameters (plotting_env 1) (Inl 7) = Inr [''R'']"
    by (simp add: plotting_env_fields)
  have h5: "''R'' \<in> set [''R'']" by simp
  have h6: "preparsed (plotting_env 1) 1 ''R'' (conversion_of ''imag'') (''degrees'' = ''degrees'')
      = Inr [[''Vtg'', ''Vbg'', ''R'']]"
    by (simp add: plotting_env_fields)
  have h7: "2 \<le> length [''Vtg'', ''Vbg'', ''R'']" by simp
  have h8: "no_imaginary_part \<notin> set []" by simp
  show ?thesis
    by (rule no_imaginary_part_handler_unreachable[OF h1 h2 h3 h4 h5 h6 h7 h8])
qed

subsection \<open>What the plotting functions return\<close>

text \<open>
  Claim C10. Whenever \<open>plot_dataset_1D\<close> completes without raising, it returns
  \<open>None\<close> (its docstring announces axes and colorbar handles); whenever
  \<open>plot_dataset_2D\<close> completes, it returns the pair of the axes array and the list
  of colorbars, which still holds the \<open>None\<close> entries it was created with.
\<close>

theorem plot_dataset_1D_returns_none:
  "(\<forall>r. fst (plot_dataset_1D env ident var rescale_axes complex_plot_type complex_plot_phase out)
          = Inr r \<longrightarrow> r = No_result)
   \<and> (\<forall>r. fst (plot_dataset_2D env ident var rescale_axes complex_plot_type complex_plot_phase
              out) = Inr r
          \<longrightarrow> (\<exists>as n. r = Axes_and_colorbars (Axes_array as) (replicate n None)))"
  using plot_dataset_1D_result plot_dataset_2D_result by blast

text \<open>
  C10 on a complex-valued run plotted as magnitude and phase, two panels: both functions
  complete.
\<close>

theorem plot_dataset_1D_returns_none_witness:
  "fst (plot_dataset_1D (plotting_env 2) (Inl 7) ''R'' True ''mag_and_phase'' ''degrees'' [])
      = Inr No_result
   \<and> (\<exists>as n. fst (plot_dataset_2D (plotting_env 2) (Inl 7) ''R'' True ''mag_and_phase''
                   ''degrees'' [])
         = Inr (Axes_and_colorbars (Axes_array as) (replicate n None)))"
  using plots_complete
    plot_dataset_1D_returns_none[of "plotting_env 2" "Inl 7" "''R''" True "''mag_and_phase''"
      "''degrees''" "[]"]
  by blast

end
